theory Spec2Isabelle
  imports Complex_Main "HOL-Library.AList"
begin

section \<open>Data model\<close>

text \<open>
  A Python float is a finite value, an infinity or not-a-number. Only \<open>math.isnan\<close> is
  ever asked of one here, so the finite values are kept as rationals.
\<close>

datatype pyfloat = Finite rat | PosInf | NegInf | NaN

definition isnan :: "pyfloat \<Rightarrow> bool" where
  "isnan v = (v = NaN)"

text \<open>The scalar Python values that occur as table cells and as field values.\<close>

datatype pyval = Py_int int | Py_float pyfloat | Py_str string | Py_none

text \<open>The exceptions the analysis can raise, as values.\<close>

datatype error = KeyError string | IndexError | AttributeError | ValueError | TypeError

definition is_LookupError :: "error \<Rightarrow> bool" where
  \<comment> \<open>Python's \<open>LookupError\<close> is the base class of \<open>KeyError\<close> and \<open>IndexError\<close>.\<close>
  "is_LookupError e = (case e of KeyError _ \<Rightarrow> True | IndexError \<Rightarrow> True | _ \<Rightarrow> False)"

text \<open>
  A tag: \<open>tag.page.page_number\<close>, the geometry that only \<open>IQModel.matches\<close> reads
  (kept abstract as \<open>'r\<close>), and for the tag of a table the grid \<open>tag.df.values\<close>, a
  list of rows.
\<close>

record 'r tag =
  page_number :: int
  region :: 'r
  df :: "pyval list list"

text \<open>
  Fields and tables are the same kind of object for the analyzer: \<open>check_fields\<close> walks
  every category of the document, the table category included.
\<close>

record 'r field =
  tags :: "'r tag list"
  field_value :: pyval

type_synonym table_index = "int \<times> int"

text \<open>
  The document: \<open>document.id\<close>, the insertion-ordered dict \<open>document.x\<close> from python
  name to the fields under it, and the \<open>is_xbrl\<close> flag.
\<close>

record 'r document =
  doc_id :: string
  doc_x :: "(string \<times> 'r field list) list"
  is_xbrl :: bool

text \<open>The three warnings the analyzer sends to the logger, with the values they print.\<close>

datatype warning =
    Table_has_no_tags string
  | Field_not_in_any_table string pyval int
  | Could_not_parse_any_value table_index

text \<open>
  The attributes of a \<open>TableAnalyzer\<close>. Dicts are association lists in insertion order.
  \<open>logged\<close> is the logger's output so far, carried with the state.
\<close>

record 'r TableAnalyzer =
  table_values :: "(table_index \<times> pyfloat list) list option"
  tagged_tables :: "(table_index \<times> 'r field) list"
  tables :: "(table_index \<times> 'r field) list option"
  fields_outside_of_tables :: "(string \<times> (int \<times> pyval) list) list"
  table_name :: string
  threshold :: rat
  document :: "'r document option"
  logged :: "warning list"

text \<open>
  The library functions the analyzer calls, whose code is not part of this repository:
  \<open>IQModel.matches\<close>, \<open>assign_indices_to_tables\<close>, \<open>NumericParser(v).parse_numeric()\<close>
  and numpy's \<open>average\<close>, \<open>std\<close> and \<open>round\<close>. They are parameters of the model;
  \<open>'s\<close> is the type of a numpy scalar.
\<close>

record ('r, 's) library =
  matches :: "'r tag \<Rightarrow> 'r tag \<Rightarrow> rat \<Rightarrow> bool"
  assign_indices_to_tables :: "'r field list \<Rightarrow> (table_index \<times> 'r field) list"
  parse_numeric :: "pyval \<Rightarrow> pyfloat"
  np_average :: "pyfloat list \<Rightarrow> 's"
  np_std :: "pyfloat list \<Rightarrow> 's"
  np_round :: "'s \<Rightarrow> int \<Rightarrow> 's"

text \<open>A pandas frame: the index labels, the index's name, the column labels, the rows.\<close>

datatype 's cell = Obj pyval | Scalar 's

record ('i, 's) DataFrame =
  frame_index :: "'i list"
  index_name :: "string option"
  frame_columns :: "string list"
  frame_rows :: "'s cell list list"

definition empty_frame :: "('i, 's) DataFrame \<Rightarrow> bool" where
  \<comment> \<open>\<open>DataFrame.empty\<close>: some axis has length 0.\<close>
  "empty_frame d = (frame_index d = [] \<or> frame_columns d = [])"

section \<open>pandas constructors\<close>

text \<open>
  \<open>pd.DataFrame(*args, index=index, columns=columns)\<close> where every positional argument
  is a list of 2-tuples. The signature is \<open>DataFrame(data=None, index=None, columns=None,
  dtype=None, copy=None)\<close>: a second positional argument is \<open>index\<close> given twice, which
  Python rejects with TypeError before pandas runs. No data, or an empty list, gives a
  frame of missing values over the given axes. A list of tuples gives one row per tuple,
  and pandas raises ValueError when the number of rows is not the length of the index,
  or the width of the tuples is not the number of columns.
\<close>

definition frame_of_missing :: "'i list \<Rightarrow> string list \<Rightarrow> ('i, 's) DataFrame" where
  "frame_of_missing index columns =
     \<lparr>frame_index = index, index_name = None, frame_columns = columns,
      frame_rows = map (\<lambda>_. map (\<lambda>_. Obj (Py_float NaN)) columns) index\<rparr>"

fun pd_DataFrame ::
  "(int \<times> pyval) list list \<Rightarrow> 'i list \<Rightarrow> string list \<Rightarrow> error + ('i, 's) DataFrame" where
  "pd_DataFrame [] index columns = Inr (frame_of_missing index columns)"
| "pd_DataFrame [data] index columns =
     (if data = [] then Inr (frame_of_missing index columns)
      else if length columns \<noteq> 2 then Inl ValueError
      else if length data \<noteq> length index then Inl ValueError
      else Inr \<lparr>frame_index = index, index_name = None, frame_columns = columns,
                frame_rows = map (\<lambda>(page, v). [Obj (Py_int page), Obj v]) data\<rparr>)"
| "pd_DataFrame (data # index' # _) index columns = Inl TypeError"

text \<open>
  \<open>pd.DataFrame.from_dict(results, orient='columns')\<close> on a dict of lists: the keys are
  the columns, the index is \<open>range(n)\<close>, and lists of different lengths are a ValueError.
  The empty dict gives the frame with no column and no row.
\<close>

definition from_dict :: "(string \<times> 's cell list) list \<Rightarrow> error + (nat, 's) DataFrame" where
  "from_dict results =
     (case results of
        [] \<Rightarrow> Inr \<lparr>frame_index = [], index_name = None, frame_columns = [], frame_rows = []\<rparr>
      | (_, col) # rest \<Rightarrow>
          if list_all (\<lambda>(_, col'). length col' = length col) rest
          then Inr \<lparr>frame_index = [0..<length col], index_name = None,
                    frame_columns = map fst results,
                    frame_rows = map (\<lambda>i. map (\<lambda>(_, c). c ! i) results) [0..<length col]\<rparr>
          else Inl ValueError)"

section \<open>The analyzer\<close>

definition TableAnalyzer_init :: "string \<Rightarrow> rat \<Rightarrow> 'r TableAnalyzer" where
  \<comment> \<open>\<open>__init__(table_py_name, threshold)\<close>; nothing has been logged yet.\<close>
  "TableAnalyzer_init table_py_name thr =
     \<lparr>table_values = None, tagged_tables = [], tables = None,
      fields_outside_of_tables = [], table_name = table_py_name, threshold = thr,
      document = None, logged = []\<rparr>"

definition first_tag :: "'r field \<Rightarrow> error + 'r tag" where
  \<comment> \<open>\<open>field.tags[0]\<close>\<close>
  "first_tag f = (case tags f of [] \<Rightarrow> Inl IndexError | t # _ \<Rightarrow> Inr t)"

subsection \<open>get_table_dict\<close>

fun tagged_only ::
  "string \<Rightarrow> 'r field list \<Rightarrow> 'r field list \<times> warning list \<Rightarrow> 'r field list \<times> warning list" where
  "tagged_only did [] acc = acc"
| "tagged_only did (table # rest) (tbls, lg) =
     (if tags table = [] then tagged_only did rest (tbls, lg @ [Table_has_no_tags did])
      else tagged_only did rest (tbls @ [table], lg))"

definition get_table_dict :: "('r, 's) library \<Rightarrow> 'r TableAnalyzer \<Rightarrow> error + 'r TableAnalyzer" where
  "get_table_dict L a =
     (case document a of
        None \<Rightarrow> Inl AttributeError
      | Some d \<Rightarrow>
          (case map_of (doc_x d) (table_name a) of
             None \<Rightarrow> Inl (KeyError (table_name a))
           | Some ts \<Rightarrow>
               (case tagged_only (doc_id d) ts ([], logged a) of
                  (tbls, lg) \<Rightarrow>
                    Inr (a\<lparr>tables := Some (assign_indices_to_tables L tbls), logged := lg\<rparr>))))"

subsection \<open>check_field_value_in_table\<close>

text \<open>
  The \<open>for ... break ... else\<close> loop over \<open>self.tables.items()\<close>: the entry the loop
  breaks at, or None when it runs to its end and the \<open>else\<close> branch is taken.
\<close>

fun scan_tables ::
  "('r, 's) library \<Rightarrow> rat \<Rightarrow> 'r field \<Rightarrow> (table_index \<times> 'r field) list
     \<Rightarrow> error + (table_index \<times> 'r field) option" where
  "scan_tables L thr fld [] = Inr None"
| "scan_tables L thr fld ((idx, table) # rest) =
     (case first_tag fld of
        Inl e \<Rightarrow> Inl e
      | Inr ft \<Rightarrow>
          (case first_tag table of
             Inl e \<Rightarrow> Inl e
           | Inr tt \<Rightarrow>
               if matches L ft tt thr then Inr (Some (idx, table))
               else scan_tables L thr fld rest))"

definition check_field_value_in_table ::
  "('r, 's) library \<Rightarrow> string \<Rightarrow> 'r field \<Rightarrow> 'r TableAnalyzer \<Rightarrow> error + 'r TableAnalyzer" where
  "check_field_value_in_table L py_name fld a =
     (case tables a of
        None \<Rightarrow> Inl AttributeError
      | Some ts \<Rightarrow>
          (case scan_tables L (threshold a) fld ts of
             Inl e \<Rightarrow> Inl e
           | Inr (Some (idx, table)) \<Rightarrow>
               if map_of (tagged_tables a) idx = None
               then Inr (a\<lparr>tagged_tables := AList.update idx table (tagged_tables a)\<rparr>)
               else Inr a
           | Inr None \<Rightarrow>
               (case first_tag fld of
                  Inl e \<Rightarrow> Inl e
                | Inr ft \<Rightarrow>
                    Inr (a\<lparr>fields_outside_of_tables :=
                            (case map_of (fields_outside_of_tables a) py_name of
                               Some l \<Rightarrow>
                                 AList.update py_name (l @ [(page_number ft, field_value fld)])
                                   (fields_outside_of_tables a)
                             | None \<Rightarrow>
                                 AList.update py_name [(page_number ft, field_value fld)]
                                   (fields_outside_of_tables a)),
                          logged := logged a @
                            [Field_not_in_any_table py_name (field_value fld)
                               (page_number ft)]\<rparr>))))"

subsection \<open>check_fields\<close>

fun check_category ::
  "('r, 's) library \<Rightarrow> string \<Rightarrow> 'r field list \<Rightarrow> 'r TableAnalyzer \<Rightarrow> error + 'r TableAnalyzer" where
  "check_category L py_name [] a = Inr a"
| "check_category L py_name (fld # rest) a =
     (if tags fld = [] then check_category L py_name rest a
      else (case check_field_value_in_table L py_name fld a of
              Inl e \<Rightarrow> Inl e
            | Inr a' \<Rightarrow> check_category L py_name rest a'))"

fun check_categories ::
  "('r, 's) library \<Rightarrow> (string \<times> 'r field list) list \<Rightarrow> string list \<Rightarrow> 'r TableAnalyzer
     \<Rightarrow> error + 'r TableAnalyzer" where
  "check_categories L x [] a = Inr a"
| "check_categories L x (py_name # rest) a =
     (case map_of x py_name of
        None \<Rightarrow> Inl (KeyError py_name)
      | Some flds \<Rightarrow>
          (case check_category L py_name flds a of
             Inl e \<Rightarrow> Inl e
           | Inr a' \<Rightarrow> check_categories L x rest a'))"

definition check_fields ::
  "('r, 's) library \<Rightarrow> 'r document \<Rightarrow> 'r TableAnalyzer
     \<Rightarrow> error + (string, 's) DataFrame \<times> 'r TableAnalyzer" where
  "check_fields L doc a =
     (case get_table_dict L (a\<lparr>document := Some doc\<rparr>) of
        Inl e \<Rightarrow> Inl e
      | Inr a1 \<Rightarrow>
          (case check_categories L (doc_x doc) (map fst (doc_x doc)) a1 of
             Inl e \<Rightarrow> Inl e
           | Inr a2 \<Rightarrow>
               (case pd_DataFrame (map snd (fields_outside_of_tables a2))
                       (map fst (fields_outside_of_tables a2)) [''page'', ''field_value''] of
                  Inl e \<Rightarrow> Inl e
                | Inr frame \<Rightarrow> Inr (frame\<lparr>index_name := Some ''python_name''\<rparr>, a2))))"

subsection \<open>get_table_values\<close>

fun row_values :: "('r, 's) library \<Rightarrow> int list \<Rightarrow> nat \<Rightarrow> pyval list \<Rightarrow> pyfloat list \<Rightarrow> pyfloat list" where
  "row_values L ignored idx [] acc = acc"
| "row_values L ignored idx (v # rest) acc =
     (if int idx \<in> set ignored then row_values L ignored (Suc idx) rest acc
      else if isnan (parse_numeric L v) then row_values L ignored (Suc idx) rest acc
      else row_values L ignored (Suc idx) rest (acc @ [parse_numeric L v]))"

fun grid_values :: "('r, 's) library \<Rightarrow> int list \<Rightarrow> pyval list list \<Rightarrow> pyfloat list \<Rightarrow> pyfloat list" where
  "grid_values L ignored [] acc = acc"
| "grid_values L ignored (row # rest) acc =
     grid_values L ignored rest (row_values L ignored 0 row acc)"

definition get_table_values ::
  "('r, 's) library \<Rightarrow> pyval list list \<Rightarrow> int list option \<Rightarrow> pyfloat list" where
  "get_table_values L table_df ignored_columns =
     grid_values L (case ignored_columns of None \<Rightarrow> [] | Some l \<Rightarrow> l) table_df []"

subsection \<open>collect_tables_values\<close>

fun collect_loop ::
  "('r, 's) library \<Rightarrow> (table_index \<times> 'r field) list
     \<Rightarrow> (table_index \<times> pyfloat list) list \<times> warning list
     \<Rightarrow> error + (table_index \<times> pyfloat list) list \<times> warning list" where
  "collect_loop L [] acc = Inr acc"
| "collect_loop L ((idx, table) # rest) (tv, lg) =
     (case first_tag table of
        Inl e \<Rightarrow> Inl e
      | Inr t \<Rightarrow>
          if get_table_values L (df t) None = []
          then collect_loop L rest (tv, lg @ [Could_not_parse_any_value idx])
          else collect_loop L rest (AList.update idx (get_table_values L (df t) None) tv, lg))"

definition collect_tables_values ::
  "('r, 's) library \<Rightarrow> 'r TableAnalyzer \<Rightarrow> error + 'r TableAnalyzer" where
  "collect_tables_values L a =
     (case collect_loop L (tagged_tables a) ([], logged a) of
        Inl e \<Rightarrow> Inl e
      | Inr (tv, lg) \<Rightarrow> Inr (a\<lparr>table_values := Some tv, logged := lg\<rparr>))"

subsection \<open>get_table_results\<close>

definition calculate_mean :: "('r, 's) library \<Rightarrow> pyfloat list \<Rightarrow> 's" where
  "calculate_mean L numbers = np_round L (np_average L numbers) 2"

definition calculate_std :: "('r, 's) library \<Rightarrow> pyfloat list \<Rightarrow> 's" where
  "calculate_std L numbers = np_round L (np_std L numbers) 2"

definition append_to :: "string \<Rightarrow> 'a \<Rightarrow> (string \<times> 'a list) list \<Rightarrow> (string \<times> 'a list) list" where
  \<comment> \<open>\<open>results[key].append(v)\<close> on a \<open>defaultdict(list)\<close>\<close>
  "append_to key v results =
     (case map_of results key of
        None \<Rightarrow> AList.update key [v] results
      | Some l \<Rightarrow> AList.update key (l @ [v]) results)"

fun results_loop ::
  "('r, 's) library \<Rightarrow> (table_index \<times> pyfloat list) list \<Rightarrow> (string \<times> 's cell list) list
     \<Rightarrow> (string \<times> 's cell list) list" where
  "results_loop L [] results = results"
| "results_loop L (((page, table_idx), vals) # rest) results =
     results_loop L rest
       (append_to ''table index'' (Obj (Py_int table_idx))
         (append_to ''page number'' (Obj (Py_int page))
           (append_to ''std'' (Scalar (calculate_std L vals))
             (append_to ''mean'' (Scalar (calculate_mean L vals)) results))))"

definition get_table_results ::
  "('r, 's) library \<Rightarrow> 'r TableAnalyzer \<Rightarrow> error + (nat, 's) DataFrame \<times> 'r TableAnalyzer" where
  "get_table_results L a =
     (case collect_tables_values L a of
        Inl e \<Rightarrow> Inl e
      | Inr a1 \<Rightarrow>
          (case table_values a1 of
             None \<Rightarrow> Inl AttributeError
           | Some tv \<Rightarrow>
               (case from_dict (results_loop L tv []) of
                  Inl e \<Rightarrow> Inl e
                | Inr frame \<Rightarrow> Inr (frame, a1))))"

section \<open>The boundary layer\<close>

text \<open>
  \<open>display_document_object\<close> of the script, from the fetched document on: the calls it
  makes to the page, in order, and the exception that escapes it, if any. Only
  \<open>KeyError\<close> is caught.
\<close>

datatype 's st_call =
    St_title string
  | St_subheader string
  | St_write string
  | St_error string
  | St_dataframe "(nat, 's) DataFrame"
  | St_write_frame "(string, 's) DataFrame"

definition except_KeyError :: "'s st_call list \<Rightarrow> error \<Rightarrow> 's st_call list \<times> error option" where
  "except_KeyError shown e =
     (case e of
        KeyError _ \<Rightarrow>
          (shown @ [St_error ''The provided document object has no tables under the key''], None)
      | _ \<Rightarrow> (shown, Some e))"

definition display_document_object ::
  "('r, 's) library \<Rightarrow> 'r document \<Rightarrow> 's st_call list \<times> error option" where
  "display_document_object L doc_object =
     (if \<not> is_xbrl doc_object then
        (case check_fields L doc_object (TableAnalyzer_init ''tables__table'' (1 / 2)) of
           Inl e \<Rightarrow>
             except_KeyError
               [St_title ''Document Analysis Results'', St_subheader ''Table Analysis''] e
         | Inr (fields_outside, extractor) \<Rightarrow>
             (case get_table_results L extractor of
                Inl e \<Rightarrow>
                  except_KeyError
                    [St_title ''Document Analysis Results'', St_subheader ''Table Analysis''] e
              | Inr (results, _) \<Rightarrow>
                  ([St_title ''Document Analysis Results'', St_subheader ''Table Analysis'',
                    St_write ''Mean and Standard Deviation of Tables:'',
                    (if empty_frame results
                     then St_error ''There are no tagged tables in this documents''
                     else St_dataframe results),
                    St_write ''Fields Outside of Tables:'',
                    (if empty_frame fields_outside
                     then St_error ''There are no fields tagged outside of tables''
                     else St_write_frame fields_outside)], None)))
      else
        ([St_title ''Document Analysis Results'',
          St_error ''Document is in XBRL format, which is not supported for this analysis.''],
         None))"

section \<open>The specification's wording\<close>

text \<open>
  \<open>extractNumericValues\<close> as the specification words it: every cell of the grid in
  row-major order, without the columns in the ignored set, parsed, without the cells that
  parse to not-a-number.
\<close>

definition extractNumericValues ::
  "(pyval \<Rightarrow> pyfloat) \<Rightarrow> pyval list list \<Rightarrow> int set \<Rightarrow> pyfloat list" where
  "extractNumericValues parse tableGrid ignoredColumnIndices =
     concat (map (\<lambda>row.
       filter (\<lambda>v. \<not> isnan v)
         (map (\<lambda>(i, c). parse c)
           (filter (\<lambda>(i, c). int i \<notin> ignoredColumnIndices) (enumerate 0 row)))) tableGrid)"

text \<open>
  The Table Statistics report as the specification words it: one row per aggregated
  table index, in order, with the columns mean, std, page number, table index; with
  nothing aggregated the frame has no column at all.
\<close>

definition table_statistics ::
  "('r, 's) library \<Rightarrow> (table_index \<times> pyfloat list) list \<Rightarrow> (nat, 's) DataFrame" where
  "table_statistics L tv =
     \<lparr>frame_index = [0..<length tv], index_name = None,
      frame_columns = (if tv = [] then [] else [''mean'', ''std'', ''page number'', ''table index'']),
      frame_rows = map (\<lambda>((page, table_idx), vals).
         [Scalar (calculate_mean L vals), Scalar (calculate_std L vals),
          Obj (Py_int page), Obj (Py_int table_idx)]) tv\<rparr>"

text \<open>The grid the aggregation reads for a referenced table: that of its first tag.\<close>

definition first_grid :: "'r field \<Rightarrow> pyval list list" where
  "first_grid t = (case tags t of [] \<Rightarrow> [] | g # _ \<Rightarrow> df g)"

text \<open>
  The aggregation as the specification words it: for each referenced table index, the
  values extracted with no ignored column from the grid of the table's first tag; a table
  with no value is left out, with a warning that carries its index.
\<close>

definition aggregated ::
  "('r, 's) library \<Rightarrow> (table_index \<times> 'r field) list \<Rightarrow> (table_index \<times> pyfloat list) list" where
  "aggregated L referenced =
     filter (\<lambda>(idx, vals). vals \<noteq> [])
       (map (\<lambda>(idx, T). (idx, extractNumericValues (parse_numeric L) (first_grid T) {}))
         referenced)"

definition skipped_warnings ::
  "('r, 's) library \<Rightarrow> (table_index \<times> 'r field) list \<Rightarrow> warning list" where
  "skipped_warnings L referenced =
     map (\<lambda>(idx, T). Could_not_parse_any_value idx)
       (filter (\<lambda>(idx, T). extractNumericValues (parse_numeric L) (first_grid T) {} = [])
         referenced)"

section \<open>A library instance for the examples\<close>

text \<open>
  Modelled from the spec: \<open>assign_indices_to_tables\<close> is pycognaize code that is not in
  this repository. The specification has it walk the tables in the order given and key
  each by the page number of its first tag and an ordinal that counts the tables already
  indexed on that page.
\<close>

fun assign_loop ::
  "'r field list \<Rightarrow> (table_index \<times> 'r field) list \<Rightarrow> (table_index \<times> 'r field) list" where
  "assign_loop [] acc = acc"
| "assign_loop (t # ts) acc =
     (case tags t of
        [] \<Rightarrow> assign_loop ts acc
      | g # _ \<Rightarrow>
          assign_loop ts
            (acc @ [((page_number g,
                      int (length (filter (\<lambda>((p, _), _). p = page_number g) acc))), t)]))"

definition assign_by_page :: "'r field list \<Rightarrow> (table_index \<times> 'r field) list" where
  "assign_by_page ts = assign_loop ts []"

text \<open>
  Modelled from the spec: \<open>IQModel.matches\<close> is pycognaize code that is not in this
  repository. The specification has it compare a similarity score of the two tags with
  the threshold, a score equal to the threshold being a match. Here a region is an
  interval on one axis and the score is the overlap of the two intervals over their
  union, on the same page.
\<close>

definition overlap_score :: "rat \<times> rat \<Rightarrow> rat \<times> rat \<Rightarrow> rat" where
  "overlap_score r1 r2 =
     (let inter = max 0 (min (snd r1) (snd r2) - max (fst r1) (fst r2));
          union = (snd r1 - fst r1) + (snd r2 - fst r2) - inter
      in if union \<le> 0 then 0 else inter / union)"

definition overlap_matches :: "(rat \<times> rat) tag \<Rightarrow> (rat \<times> rat) tag \<Rightarrow> rat \<Rightarrow> bool" where
  "overlap_matches t1 t2 thr =
     (page_number t1 = page_number t2 \<and> thr \<le> overlap_score (region t1) (region t2))"

text \<open>
  Modelled from the spec: \<open>NumericParser.parse_numeric\<close> is pycognaize code that is not
  in this repository. The specification gives its contract (a float, or not-a-number) and
  its results on the cells of the aggregation example: numbers parse to themselves, the
  text \<open>2.0\<close> to 2, the texts \<open>x\<close> and \<open>NaN\<close> to not-a-number.
\<close>

definition example_parse :: "pyval \<Rightarrow> pyfloat" where
  "example_parse v =
     (case v of
        Py_int n \<Rightarrow> Finite (of_int n)
      | Py_float f \<Rightarrow> f
      | Py_str s \<Rightarrow> (if s = ''2.0'' then Finite 2 else NaN)
      | Py_none \<Rightarrow> NaN)"

text \<open>numpy's scalars in the examples: the calls themselves, left uncomputed.\<close>

datatype np_term = Average "pyfloat list" | Std "pyfloat list" | Round np_term int

definition example_library :: "(rat \<times> rat, np_term) library" where
  "example_library =
     \<lparr>matches = overlap_matches, assign_indices_to_tables = assign_by_page,
      parse_numeric = example_parse, np_average = Average, np_std = Std, np_round = Round\<rparr>"

text \<open>Tables, fields and documents for the examples.\<close>

definition example_tag :: "int \<Rightarrow> rat \<Rightarrow> rat \<Rightarrow> pyval list list \<Rightarrow> (rat \<times> rat) tag" where
  "example_tag p lo hi grid = \<lparr>page_number = p, region = (lo, hi), df = grid\<rparr>"

definition table_A :: "(rat \<times> rat) field" where
  "table_A =
     \<lparr>tags = [example_tag 1 0 12
                [[Py_int 1, Py_str ''2.0'', Py_str ''x''], [Py_int 3, Py_str ''NaN'', Py_int 4]]],
      field_value = Py_none\<rparr>"

definition table_B :: "(rat \<times> rat) field" where
  "table_B = \<lparr>tags = [example_tag 2 0 10 [[Py_str ''x'', Py_str ''NaN'']]], field_value = Py_none\<rparr>"

definition table_C :: "(rat \<times> rat) field" where
  "table_C = \<lparr>tags = [example_tag 1 0 10 [[Py_int 9]]], field_value = Py_none\<rparr>"

definition table_Z :: "(rat \<times> rat) field" where
  "table_Z = \<lparr>tags = [example_tag 1 20 30 [[Py_int 7]]], field_value = Py_none\<rparr>"

definition table_U :: "(rat \<times> rat) field" where
  "table_U = \<lparr>tags = [], field_value = Py_none\<rparr>"

definition total_5 :: "(rat \<times> rat) field" where
  "total_5 = \<lparr>tags = [example_tag 1 0 10 []], field_value = Py_int 5\<rparr>"

definition revenue_100 :: "(rat \<times> rat) field" where
  "revenue_100 = \<lparr>tags = [example_tag 1 50 60 []], field_value = Py_int 100\<rparr>"

definition revenue_200 :: "(rat \<times> rat) field" where
  "revenue_200 = \<lparr>tags = [example_tag 3 50 60 []], field_value = Py_int 200\<rparr>"

definition cost_7 :: "(rat \<times> rat) field" where
  "cost_7 = \<lparr>tags = [example_tag 2 50 60 []], field_value = Py_int 7\<rparr>"

definition doc_tables :: "(rat \<times> rat) document" where
  "doc_tables =
     \<lparr>doc_id = ''d0'',
      doc_x = [(''tables__table'', [table_Z, table_U, table_A, table_B]), (''total'', [total_5])],
      is_xbrl = False\<rparr>"

definition doc_revenue :: "(rat \<times> rat) document" where
  "doc_revenue =
     \<lparr>doc_id = ''d1'',
      doc_x = [(''tables__table'', []), (''revenue'', [revenue_100, revenue_200])],
      is_xbrl = False\<rparr>"

definition doc_two_names :: "(rat \<times> rat) document" where
  "doc_two_names =
     \<lparr>doc_id = ''d2'',
      doc_x = [(''tables__table'', []), (''revenue'', [revenue_100]), (''cost'', [cost_7])],
      is_xbrl = False\<rparr>"

definition doc_one_unmatched :: "(rat \<times> rat) document" where
  "doc_one_unmatched =
     \<lparr>doc_id = ''d3'',
      doc_x = [(''tables__table'', [table_A]), (''revenue'', [revenue_100])],
      is_xbrl = False\<rparr>"

definition doc_no_fields :: "(rat \<times> rat) document" where
  "doc_no_fields = \<lparr>doc_id = ''d4'', doc_x = [(''tables__table'', [])], is_xbrl = False\<rparr>"

definition doc_no_table_key :: "(rat \<times> rat) document" where
  "doc_no_table_key =
     \<lparr>doc_id = ''d5'', doc_x = [(''revenue'', [revenue_100])], is_xbrl = False\<rparr>"

text \<open>An analyzer in the middle of a run: three tables indexed, the second referenced.\<close>

definition analyzer_mid :: "(rat \<times> rat) TableAnalyzer" where
  "analyzer_mid =
     (TableAnalyzer_init ''tables__table'' (1 / 2))
       \<lparr>tables := Some [((1, 0), table_Z), ((1, 1), table_A), ((1, 2), table_C)],
        tagged_tables := [((1, 1), table_A)]\<rparr>"

text \<open>
  The analyzer the script builds, and its state after \<open>check_fields\<close> on
  \<open>doc_tables\<close> and after \<open>get_table_results\<close>.
\<close>

definition analyzer_fresh :: "(rat \<times> rat) TableAnalyzer" where
  "analyzer_fresh = TableAnalyzer_init ''tables__table'' (1 / 2)"

definition analyzer_checked :: "(rat \<times> rat) TableAnalyzer" where
  "analyzer_checked =
     analyzer_fresh
       \<lparr>tagged_tables := [((1, 0), table_Z), ((1, 1), table_A), ((2, 0), table_B)],
        tables := Some [((1, 0), table_Z), ((1, 1), table_A), ((2, 0), table_B)],
        document := Some doc_tables,
        logged := [Table_has_no_tags ''d0'']\<rparr>"

definition analyzer_aggregated :: "(rat \<times> rat) TableAnalyzer" where
  "analyzer_aggregated =
     analyzer_checked
       \<lparr>table_values :=
          Some [((1, 0), [Finite 7]), ((1, 1), [Finite 1, Finite 2, Finite 3, Finite 4])],
        logged := [Table_has_no_tags ''d0'', Could_not_parse_any_value (2, 0)]\<rparr>"

definition no_unmatched_fields :: "(string, np_term) DataFrame" where
  "no_unmatched_fields =
     \<lparr>frame_index = [], index_name = Some ''python_name'',
      frame_columns = [''page'', ''field_value''], frame_rows = []\<rparr>"

text \<open>An analyzer whose only referenced table has no cell that parses.\<close>

definition analyzer_only_B :: "(rat \<times> rat) TableAnalyzer" where
  "analyzer_only_B = analyzer_fresh\<lparr>tagged_tables := [((2, 0), table_B)]\<rparr>"

text \<open>
  The state after \<open>check_fields\<close> on \<open>doc_one_unmatched\<close>, and the report of one
  unmatched field.
\<close>

definition analyzer_after_first :: "(rat \<times> rat) TableAnalyzer" where
  "analyzer_after_first =
     analyzer_fresh
       \<lparr>tagged_tables := [((1, 0), table_A)],
        tables := Some [((1, 0), table_A)],
        fields_outside_of_tables := [(''revenue'', [(1, Py_int 100)])],
        document := Some doc_one_unmatched,
        logged := [Field_not_in_any_table ''revenue'' (Py_int 100) 1]\<rparr>"

definition one_revenue_row :: "(string, np_term) DataFrame" where
  "one_revenue_row =
     \<lparr>frame_index = [''revenue''], index_name = Some ''python_name'',
      frame_columns = [''page'', ''field_value''],
      frame_rows = [[Obj (Py_int 1), Obj (Py_int 100)]]\<rparr>"

text \<open>
  A document with a table without a tag and two unmatched fields, and the analyzer's
  state after the fields of that document have been walked.
\<close>

definition doc_untagged :: "(rat \<times> rat) document" where
  "doc_untagged =
     \<lparr>doc_id = ''d6'',
      doc_x = [(''tables__table'', [table_U, table_A]), (''revenue'', [revenue_100, revenue_200])],
      is_xbrl = False\<rparr>"

definition analyzer_indexed :: "(rat \<times> rat) TableAnalyzer" where
  "analyzer_indexed =
     analyzer_fresh
       \<lparr>tables := Some [((1, 0), table_A)],
        document := Some doc_untagged,
        logged := [Table_has_no_tags ''d6'']\<rparr>"

definition analyzer_walked :: "(rat \<times> rat) TableAnalyzer" where
  "analyzer_walked =
     analyzer_indexed
       \<lparr>tagged_tables := [((1, 0), table_A)],
        fields_outside_of_tables := [(''revenue'', [(1, Py_int 100), (3, Py_int 200)])],
        logged := [Table_has_no_tags ''d6'',
                   Field_not_in_any_table ''revenue'' (Py_int 100) 1,
                   Field_not_in_any_table ''revenue'' (Py_int 200) 3]\<rparr>"

section \<open>Extraction of the numeric values\<close>

lemma row_values_eq:
  "row_values L ignored idx row acc =
     acc @ filter (\<lambda>v. \<not> isnan v)
             (map (\<lambda>(i, c). parse_numeric L c)
               (filter (\<lambda>(i, c). int i \<notin> set ignored) (enumerate idx row)))"
  by (induction row arbitrary: idx acc) simp_all

lemma grid_values_eq:
  "grid_values L ignored grid acc =
     acc @ extractNumericValues (parse_numeric L) grid (set ignored)"
  by (induction grid arbitrary: acc) (simp_all add: extractNumericValues_def row_values_eq)

lemma get_table_values_eq:
  "get_table_values L table_df ignored_columns =
     extractNumericValues (parse_numeric L) table_df
       (case ignored_columns of None \<Rightarrow> {} | Some l \<Rightarrow> set l)"
  by (cases ignored_columns) (simp_all add: get_table_values_def grid_values_eq)

text \<open>
  C4. The two nested loops of \<open>get_table_values\<close> return what the specification's
  \<open>extractNumericValues\<close> describes: the cells in row-major order, without the ignored
  columns, parsed, without those that parse to not-a-number, in the order met. With a
  parser that reads the numbers and the text \<open>2.0\<close> and rejects \<open>x\<close> and \<open>NaN\<close>, the
  grid \<open>[[1, "2.0", "x"], [3, "NaN", 4]]\<close> gives \<open>[1, 2.0, 3, 4]\<close>.
\<close>

theorem get_table_values_extracts:
  "get_table_values L table_df ignored_columns =
     extractNumericValues (parse_numeric L) table_df
       (case ignored_columns of None \<Rightarrow> {} | Some l \<Rightarrow> set l)
   \<and> (parse_numeric L (Py_int 1) = Finite 1 \<and> parse_numeric L (Py_str ''2.0'') = Finite 2
        \<and> parse_numeric L (Py_str ''x'') = NaN \<and> parse_numeric L (Py_int 3) = Finite 3
        \<and> parse_numeric L (Py_str ''NaN'') = NaN \<and> parse_numeric L (Py_int 4) = Finite 4
      \<longrightarrow> get_table_values L
            [[Py_int 1, Py_str ''2.0'', Py_str ''x''], [Py_int 3, Py_str ''NaN'', Py_int 4]] None
          = [Finite 1, Finite 2, Finite 3, Finite 4])"
proof (intro conjI impI)
  show "get_table_values L table_df ignored_columns =
     extractNumericValues (parse_numeric L) table_df
       (case ignored_columns of None \<Rightarrow> {} | Some l \<Rightarrow> set l)"
    by (rule get_table_values_eq)
next
  assume "parse_numeric L (Py_int 1) = Finite 1 \<and> parse_numeric L (Py_str ''2.0'') = Finite 2
        \<and> parse_numeric L (Py_str ''x'') = NaN \<and> parse_numeric L (Py_int 3) = Finite 3
        \<and> parse_numeric L (Py_str ''NaN'') = NaN \<and> parse_numeric L (Py_int 4) = Finite 4"
  then show "get_table_values L
            [[Py_int 1, Py_str ''2.0'', Py_str ''x''], [Py_int 3, Py_str ''NaN'', Py_int 4]] None
          = [Finite 1, Finite 2, Finite 3, Finite 4]"
    by (simp add: get_table_values_def isnan_def)
qed

theorem get_table_values_extracts_witness:
  "(parse_numeric example_library (Py_int 1) = Finite 1
      \<and> parse_numeric example_library (Py_str ''2.0'') = Finite 2
      \<and> parse_numeric example_library (Py_str ''x'') = NaN
      \<and> parse_numeric example_library (Py_int 3) = Finite 3
      \<and> parse_numeric example_library (Py_str ''NaN'') = NaN
      \<and> parse_numeric example_library (Py_int 4) = Finite 4)
   \<and> get_table_values example_library
       [[Py_int 1, Py_str ''2.0'', Py_str ''x''], [Py_int 3, Py_str ''NaN'', Py_int 4]] None
     = [Finite 1, Finite 2, Finite 3, Finite 4]
   \<and> get_table_values example_library
       [[Py_int 1, Py_str ''2.0'', Py_str ''x''], [Py_int 3, Py_str ''NaN'', Py_int 4]] (Some [1])
     = extractNumericValues example_parse
         [[Py_int 1, Py_str ''2.0'', Py_str ''x''], [Py_int 3, Py_str ''NaN'', Py_int 4]] {1}"
  using get_table_values_extracts [of example_library
     "[[Py_int 1, Py_str ''2.0'', Py_str ''x''], [Py_int 3, Py_str ''NaN'', Py_int 4]]" None]
    get_table_values_extracts [of example_library
     "[[Py_int 1, Py_str ''2.0'', Py_str ''x''], [Py_int 3, Py_str ''NaN'', Py_int 4]]" "Some [1]"]
  by (simp add: example_library_def example_parse_def)

section \<open>Matching fields to tables\<close>

lemmas example_defs =
  example_library_def overlap_matches_def overlap_score_def example_tag_def
  table_A_def table_B_def table_C_def table_Z_def table_U_def total_5_def
  revenue_100_def revenue_200_def cost_7_def analyzer_mid_def TableAnalyzer_init_def
  first_tag_def

lemma update_absent: "k \<notin> fst ` set al \<Longrightarrow> AList.update k v al = al @ [(k, v)]"
  by (induction al) auto

lemma map_of_None_iff: "(map_of al k = None) = (k \<notin> fst ` set al)"
  by (simp add: map_of_eq_None_iff)

lemma scan_tables_first_match:
  assumes "first_tag fld = Inr ft"
    and "\<forall>(i, u) \<in> set pre. \<exists>tu. first_tag u = Inr tu \<and> \<not> matches L ft tu thr"
    and "first_tag t = Inr tt" and "matches L ft tt thr"
  shows "scan_tables L thr fld (pre @ (idx, t) # post) = Inr (Some (idx, t))"
  using assms by (induction pre) auto

lemma check_field_matched:
  assumes "tables a = Some (pre @ (idx, t) # post)"
    and "first_tag fld = Inr ft"
    and "\<forall>(i, u) \<in> set pre. \<exists>tu. first_tag u = Inr tu \<and> \<not> matches L ft tu (threshold a)"
    and "first_tag t = Inr tt" and "matches L ft tt (threshold a)"
  shows "check_field_value_in_table L py_name fld a =
           Inr (if idx \<in> fst ` set (tagged_tables a) then a
                else a\<lparr>tagged_tables := tagged_tables a @ [(idx, t)]\<rparr>)"
proof -
  have "scan_tables L (threshold a) fld (pre @ (idx, t) # post) = Inr (Some (idx, t))"
    using assms(2-5) by (rule scan_tables_first_match)
  then show ?thesis
    using assms(1) by (simp add: check_field_value_in_table_def map_of_None_iff update_absent)
qed

text \<open>
  C3. A field with a tag is compared with the indexed tables in the order of the index
  mapping. The first table whose first tag matches the field's first tag at the
  analyzer's threshold is recorded as referenced, unless it already is, and the scan
  stops there: the tables after it are not looked at, whether they would match or not,
  and nothing else of the state changes.
\<close>

theorem first_match_wins:
  assumes "tables a = Some (pre @ (idx, t) # post)"
    and "first_tag fld = Inr ft"
    and "\<forall>(i, u) \<in> set pre. \<exists>tu. first_tag u = Inr tu \<and> \<not> matches L ft tu (threshold a)"
    and "first_tag t = Inr tt" and "matches L ft tt (threshold a)"
  shows "check_field_value_in_table L py_name fld a =
           Inr (if idx \<in> fst ` set (tagged_tables a) then a
                else a\<lparr>tagged_tables := tagged_tables a @ [(idx, t)]\<rparr>)"
  using assms by (rule check_field_matched)

theorem first_match_wins_witness:
  "matches example_library (example_tag 1 0 10 []) (example_tag 1 0 10 [[Py_int 9]]) (1 / 2)
   \<and> check_field_value_in_table example_library ''total'' total_5
       (analyzer_mid\<lparr>tagged_tables := []\<rparr>)
     = Inr (analyzer_mid\<lparr>tagged_tables := [((1, 1), table_A)]\<rparr>)"
proof -
  let ?a = "analyzer_mid\<lparr>tagged_tables := []\<rparr>"
  have 1: "tables ?a = Some ([((1, 0), table_Z)] @ ((1, 1), table_A) # [((1, 2), table_C)])"
    by (simp add: analyzer_mid_def)
  have 2: "first_tag total_5 = Inr (example_tag 1 0 10 [])"
    by (simp add: first_tag_def total_5_def)
  have 3: "\<forall>(i, u) \<in> set [((1, 0), table_Z)].
             \<exists>tu. first_tag u = Inr tu
               \<and> \<not> matches example_library (example_tag 1 0 10 []) tu (threshold ?a)"
    by (simp add: example_defs)
  have 4: "first_tag table_A
             = Inr (example_tag 1 0 12
                 [[Py_int 1, Py_str ''2.0'', Py_str ''x''], [Py_int 3, Py_str ''NaN'', Py_int 4]])"
    by (simp add: first_tag_def table_A_def)
  have 5: "matches example_library (example_tag 1 0 10 [])
             (example_tag 1 0 12
                 [[Py_int 1, Py_str ''2.0'', Py_str ''x''], [Py_int 3, Py_str ''NaN'', Py_int 4]])
             (threshold ?a)"
    by (simp add: example_defs Let_def)
  have 6: "matches example_library (example_tag 1 0 10 []) (example_tag 1 0 10 [[Py_int 9]]) (1 / 2)"
    by (simp add: example_defs Let_def)
  show ?thesis
    using first_match_wins [OF 1 2 3 4 5, of "''total''"] 6 by simp
qed


text \<open>
  C8. Recording a table as referenced is idempotent. When the index of the first table a
  field matches is already among the referenced tables, the check leaves the whole state
  as it is: the index is not added again, its table is not replaced, and the field is not
  listed as outside of the tables. So after one field has had the table recorded, a
  later field that matches the same table changes nothing.
\<close>

theorem referenced_registration_idempotent:
  assumes "tables a = Some (pre @ (idx, t) # post)"
    and "first_tag t = Inr tt"
    and "first_tag fld = Inr ft"
    and "\<forall>(i, u) \<in> set pre. \<exists>tu. first_tag u = Inr tu \<and> \<not> matches L ft tu (threshold a)"
    and "matches L ft tt (threshold a)"
    and "first_tag fld' = Inr ft'"
    and "\<forall>(i, u) \<in> set pre. \<exists>tu. first_tag u = Inr tu \<and> \<not> matches L ft' tu (threshold a)"
    and "matches L ft' tt (threshold a)"
  shows "(idx \<in> fst ` set (tagged_tables a)
            \<longrightarrow> check_field_value_in_table L py_name fld a = Inr a)
       \<and> (\<exists>a1. check_field_value_in_table L py_name fld a = Inr a1
              \<and> idx \<in> fst ` set (tagged_tables a1)
              \<and> check_field_value_in_table L py_name' fld' a1 = Inr a1)"
proof (intro conjI impI)
  assume "idx \<in> fst ` set (tagged_tables a)"
  then show "check_field_value_in_table L py_name fld a = Inr a"
    using check_field_matched [OF assms(1) assms(3) assms(4) assms(2) assms(5)] by simp
next
  define a1 where "a1 = (if idx \<in> fst ` set (tagged_tables a) then a
                         else a\<lparr>tagged_tables := tagged_tables a @ [(idx, t)]\<rparr>)"
  have first: "check_field_value_in_table L py_name fld a = Inr a1"
    unfolding a1_def by (rule check_field_matched [OF assms(1) assms(3) assms(4) assms(2) assms(5)])
  have tbl: "tables a1 = Some (pre @ (idx, t) # post)" and thr: "threshold a1 = threshold a"
    using assms(1) by (simp_all add: a1_def)
  have mem: "idx \<in> fst ` set (tagged_tables a1)"
    by (simp add: a1_def)
  have "check_field_value_in_table L py_name' fld' a1 =
          Inr (if idx \<in> fst ` set (tagged_tables a1) then a1
               else a1\<lparr>tagged_tables := tagged_tables a1 @ [(idx, t)]\<rparr>)"
    using assms(7,8) by (intro check_field_matched [OF tbl assms(6) _ assms(2)]) (simp_all add: thr)
  with mem have "check_field_value_in_table L py_name' fld' a1 = Inr a1"
    by simp
  with first mem
  show "\<exists>a1. check_field_value_in_table L py_name fld a = Inr a1
              \<and> idx \<in> fst ` set (tagged_tables a1)
              \<and> check_field_value_in_table L py_name' fld' a1 = Inr a1"
    by blast
qed

theorem referenced_registration_idempotent_witness:
  "(1, 1) \<in> fst ` set (tagged_tables analyzer_mid)
   \<and> check_field_value_in_table example_library ''total'' total_5 analyzer_mid = Inr analyzer_mid
   \<and> (\<exists>a1. check_field_value_in_table example_library ''total'' total_5 analyzer_mid = Inr a1
          \<and> (1, 1) \<in> fst ` set (tagged_tables a1)
          \<and> check_field_value_in_table example_library ''tables__table'' table_A a1 = Inr a1)"
proof -
  have 1: "tables analyzer_mid
             = Some ([((1, 0), table_Z)] @ ((1, 1), table_A) # [((1, 2), table_C)])"
    by (simp add: analyzer_mid_def)
  have 2: "first_tag table_A
             = Inr (example_tag 1 0 12
                 [[Py_int 1, Py_str ''2.0'', Py_str ''x''], [Py_int 3, Py_str ''NaN'', Py_int 4]])"
    by (simp add: first_tag_def table_A_def)
  have 3: "first_tag total_5 = Inr (example_tag 1 0 10 [])"
    by (simp add: first_tag_def total_5_def)
  have 4: "\<forall>(i, u) \<in> set [((1, 0), table_Z)].
             \<exists>tu. first_tag u = Inr tu
               \<and> \<not> matches example_library (example_tag 1 0 10 []) tu (threshold analyzer_mid)"
    by (simp add: example_defs)
  have 5: "matches example_library (example_tag 1 0 10 [])
             (example_tag 1 0 12
                 [[Py_int 1, Py_str ''2.0'', Py_str ''x''], [Py_int 3, Py_str ''NaN'', Py_int 4]])
             (threshold analyzer_mid)"
    by (simp add: example_defs Let_def)
  have 6: "\<forall>(i, u) \<in> set [((1, 0), table_Z)].
             \<exists>tu. first_tag u = Inr tu
               \<and> \<not> matches example_library
                     (example_tag 1 0 12
                        [[Py_int 1, Py_str ''2.0'', Py_str ''x''],
                         [Py_int 3, Py_str ''NaN'', Py_int 4]]) tu (threshold analyzer_mid)"
    by (simp add: example_defs)
  have 7: "matches example_library
             (example_tag 1 0 12
                 [[Py_int 1, Py_str ''2.0'', Py_str ''x''], [Py_int 3, Py_str ''NaN'', Py_int 4]])
             (example_tag 1 0 12
                 [[Py_int 1, Py_str ''2.0'', Py_str ''x''], [Py_int 3, Py_str ''NaN'', Py_int 4]])
             (threshold analyzer_mid)"
    by (simp add: example_defs Let_def)
  have 8: "(1, 1) \<in> fst ` set (tagged_tables analyzer_mid)"
    by (simp add: analyzer_mid_def)
  show ?thesis
    using referenced_registration_idempotent [OF 1 2 3 4 5 2 6 7,
        of "''total''" "''tables__table''"] 8
    by blast
qed

section \<open>Indexing the tables and walking the fields\<close>

lemma set_update_subset: "set (AList.update k v al) \<subseteq> insert (k, v) (set al)"
  by (induction al) auto

lemma tagged_only_eq:
  "tagged_only did ts (tbls, lg) =
     (tbls @ filter (\<lambda>T. tags T \<noteq> []) ts,
      lg @ map (\<lambda>_. Table_has_no_tags did) (filter (\<lambda>T. tags T = []) ts))"
  by (induction ts arbitrary: tbls lg) simp_all

lemma get_table_dict_eq:
  assumes "document a = Some d" and "map_of (doc_x d) (table_name a) = Some ts"
  shows "get_table_dict L a =
           Inr (a\<lparr>tables := Some (assign_indices_to_tables L (filter (\<lambda>T. tags T \<noteq> []) ts)),
                  logged := logged a @
                    map (\<lambda>_. Table_has_no_tags (doc_id d)) (filter (\<lambda>T. tags T = []) ts)\<rparr>)"
  using assms by (simp add: get_table_dict_def tagged_only_eq)

lemma get_table_dict_KeyError:
  assumes "document a = Some d" and "map_of (doc_x d) (table_name a) = None"
  shows "get_table_dict L a = Inl (KeyError (table_name a))"
  using assms by (simp add: get_table_dict_def)

lemma scan_tables_Some:
  "scan_tables L thr fld ts = Inr (Some (idx, t)) \<Longrightarrow> (idx, t) \<in> set ts \<and> tags t \<noteq> []"
  by (induction ts) (auto simp: first_tag_def split: sum.splits if_splits list.splits)

lemma check_field_frame:
  assumes "check_field_value_in_table L py fld a = Inr a'"
  shows "tables a' = tables a \<and> threshold a' = threshold a \<and> table_name a' = table_name a
       \<and> document a' = document a \<and> table_values a' = table_values a"
  using assms
  by (auto simp: check_field_value_in_table_def
           split: option.splits sum.splits if_splits prod.splits)

lemma check_field_tagged:
  assumes "check_field_value_in_table L py fld a = Inr a'"
    and "\<forall>(i, T) \<in> set (tagged_tables a). tags T \<noteq> []"
  shows "\<forall>(i, T) \<in> set (tagged_tables a'). tags T \<noteq> []"
proof (cases "tables a")
  case None
  with assms show ?thesis by (simp add: check_field_value_in_table_def)
next
  case (Some ts)
  show ?thesis
  proof (cases "scan_tables L (threshold a) fld ts")
    case (Inl e)
    with Some assms show ?thesis by (simp add: check_field_value_in_table_def)
  next
    case (Inr found)
    show ?thesis
    proof (cases found)
      case None
      with Some Inr assms show ?thesis
        by (auto simp: check_field_value_in_table_def split: sum.splits)
    next
      case (Some hit)
      obtain idx t where hit: "hit = (idx, t)" by (cases hit)
      with Inr Some have "tags t \<noteq> []"
        using scan_tables_Some [of L "threshold a" fld ts idx t] by simp
      with assms \<open>tables a = Some ts\<close> Inr Some hit set_update_subset [of idx t "tagged_tables a"]
      show ?thesis
        by (auto simp: check_field_value_in_table_def split: if_splits)
    qed
  qed
qed

lemma check_category_frame:
  "check_category L py flds a = Inr a' \<Longrightarrow>
     tables a' = tables a \<and> threshold a' = threshold a \<and> table_name a' = table_name a
       \<and> document a' = document a \<and> table_values a' = table_values a"
proof (induction flds arbitrary: a)
  case Nil
  then show ?case by simp
next
  case (Cons fld flds)
  show ?case
  proof (cases "tags fld = []")
    case True
    with Cons show ?thesis by simp
  next
    case False
    with Cons.prems obtain a1 where 1: "check_field_value_in_table L py fld a = Inr a1"
      and 2: "check_category L py flds a1 = Inr a'"
      by (auto split: sum.splits)
    from Cons.IH [OF 2] check_field_frame [OF 1] show ?thesis by simp
  qed
qed

lemma check_category_tagged:
  "check_category L py flds a = Inr a' \<Longrightarrow>
   \<forall>(i, T) \<in> set (tagged_tables a). tags T \<noteq> [] \<Longrightarrow>
   \<forall>(i, T) \<in> set (tagged_tables a'). tags T \<noteq> []"
proof (induction flds arbitrary: a)
  case Nil
  then show ?case by simp
next
  case (Cons fld flds)
  show ?case
  proof (cases "tags fld = []")
    case True
    with Cons show ?thesis by simp
  next
    case False
    with Cons.prems obtain a1 where 1: "check_field_value_in_table L py fld a = Inr a1"
      and 2: "check_category L py flds a1 = Inr a'"
      by (auto split: sum.splits)
    from Cons.IH [OF 2 check_field_tagged [OF 1 Cons.prems(2)]] show ?thesis .
  qed
qed

lemma check_categories_frame:
  "check_categories L x names a = Inr a' \<Longrightarrow>
     tables a' = tables a \<and> threshold a' = threshold a \<and> table_name a' = table_name a
       \<and> document a' = document a \<and> table_values a' = table_values a"
proof (induction names arbitrary: a)
  case Nil
  then show ?case by simp
next
  case (Cons py names)
  then obtain flds a1 where 0: "map_of x py = Some flds"
    and 1: "check_category L py flds a = Inr a1"
    and 2: "check_categories L x names a1 = Inr a'"
    by (auto split: option.splits sum.splits)
  from Cons.IH [OF 2] check_category_frame [OF 1] show ?case by simp
qed

lemma check_categories_tagged:
  "check_categories L x names a = Inr a' \<Longrightarrow>
   \<forall>(i, T) \<in> set (tagged_tables a). tags T \<noteq> [] \<Longrightarrow>
   \<forall>(i, T) \<in> set (tagged_tables a'). tags T \<noteq> []"
proof (induction names arbitrary: a)
  case Nil
  then show ?case by simp
next
  case (Cons py names)
  then obtain flds a1 where 0: "map_of x py = Some flds"
    and 1: "check_category L py flds a = Inr a1"
    and 2: "check_categories L x names a1 = Inr a'"
    by (auto split: option.splits sum.splits)
  from Cons.IH [OF 2 check_category_tagged [OF 1 Cons.prems(2)]] show ?case .
qed

section \<open>Aggregation and the statistics report\<close>

lemma first_tag_grid: "first_tag T = Inr t \<Longrightarrow> df t = first_grid T"
  by (auto simp: first_tag_def first_grid_def split: list.splits)

lemma first_tag_tagged: "tags T \<noteq> [] \<Longrightarrow> \<exists>t. first_tag T = Inr t"
  by (auto simp: first_tag_def split: list.splits)

lemma collect_loop_eq:
  assumes "\<forall>(i, T) \<in> set tg. tags T \<noteq> []"
    and "distinct (map fst tg)"
    and "fst ` set tg \<inter> fst ` set tv = {}"
  shows "collect_loop L tg (tv, lg) =
           Inr (tv @ aggregated L tg, lg @ skipped_warnings L tg)"
  using assms
proof (induction tg arbitrary: tv lg)
  case Nil
  then show ?case by (simp add: aggregated_def skipped_warnings_def)
next
  case (Cons e tg)
  obtain idx T where e: "e = (idx, T)" by (cases e)
  from Cons.prems(1) e obtain t where t: "first_tag T = Inr t"
    using first_tag_tagged [of T] by auto
  have grid: "get_table_values L (df t) None
                = extractNumericValues (parse_numeric L) (first_grid T) {}"
    by (simp add: get_table_values_eq first_tag_grid [OF t])
  have rest: "\<forall>(i, T) \<in> set tg. tags T \<noteq> []" "distinct (map fst tg)"
    using Cons.prems by simp_all
  have fresh: "idx \<notin> fst ` set tv"
    using Cons.prems(3) e by auto
  show ?case
  proof (cases "extractNumericValues (parse_numeric L) (first_grid T) {} = []")
    case True
    have "fst ` set tg \<inter> fst ` set tv = {}"
      using Cons.prems(3) by auto
    from Cons.IH [OF rest this] True show ?thesis
      by (simp add: e t grid aggregated_def skipped_warnings_def)
  next
    case False
    let ?tv = "tv @ [(idx, extractNumericValues (parse_numeric L) (first_grid T) {})]"
    have "fst ` set tg \<inter> fst ` set ?tv = {}"
      using Cons.prems(2,3) e by auto
    from Cons.IH [OF rest this] False show ?thesis
      by (simp add: e t grid aggregated_def skipped_warnings_def update_absent [OF fresh])
  qed
qed

lemma collect_loop_keys:
  "collect_loop L tg (tv, lg) = Inr (tv', lg') \<Longrightarrow> fst ` set tv' \<subseteq> fst ` set tv \<union> fst ` set tg"
proof (induction tg arbitrary: tv lg)
  case Nil
  then show ?case by auto
next
  case (Cons e tg)
  obtain idx T where e: "e = (idx, T)" by (cases e)
  from Cons.prems e obtain t where t: "first_tag T = Inr t"
    by (auto split: sum.splits)
  show ?case
  proof (cases "get_table_values L (df t) None = []")
    case True
    with Cons.prems e t have "collect_loop L tg (tv, lg @ [Could_not_parse_any_value idx]) = Inr (tv', lg')"
      by simp
    from Cons.IH [OF this] show ?thesis by auto
  next
    case False
    with Cons.prems e t
    have "collect_loop L tg (AList.update idx (get_table_values L (df t) None) tv, lg) = Inr (tv', lg')"
      by simp
    from Cons.IH [OF this] show ?thesis
      by (auto simp: dom_update e)
  qed
qed

lemma collect_tables_values_frame:
  assumes "collect_tables_values L a = Inr a'"
  shows "tagged_tables a' = tagged_tables a \<and> tables a' = tables a
       \<and> fields_outside_of_tables a' = fields_outside_of_tables a
       \<and> (\<exists>tv. table_values a' = Some tv \<and> fst ` set tv \<subseteq> fst ` set (tagged_tables a))"
proof -
  from assms obtain tv lg where 1: "collect_loop L (tagged_tables a) ([], logged a) = Inr (tv, lg)"
    and 2: "a' = a\<lparr>table_values := Some tv, logged := lg\<rparr>"
    by (auto simp: collect_tables_values_def split: sum.splits)
  from collect_loop_keys [OF 1] 2 show ?thesis by simp
qed

lemma collect_tables_values_eq:
  assumes "\<forall>(i, T) \<in> set (tagged_tables a). tags T \<noteq> []"
    and "distinct (map fst (tagged_tables a))"
  shows "collect_tables_values L a =
           Inr (a\<lparr>table_values := Some (aggregated L (tagged_tables a)),
                  logged := logged a @ skipped_warnings L (tagged_tables a)\<rparr>)"
  using collect_loop_eq [OF assms, of "[]" L "logged a"]
  by (simp add: collect_tables_values_def)

lemma results_loop_columns:
  "results_loop L tv
     [(''mean'', ms), (''std'', ss), (''page number'', ps), (''table index'', ks)] =
     [(''mean'', ms @ map (\<lambda>((page, table_idx), vals). Scalar (calculate_mean L vals)) tv),
      (''std'', ss @ map (\<lambda>((page, table_idx), vals). Scalar (calculate_std L vals)) tv),
      (''page number'', ps @ map (\<lambda>((page, table_idx), vals). Obj (Py_int page)) tv),
      (''table index'', ks @ map (\<lambda>((page, table_idx), vals). Obj (Py_int table_idx)) tv)]"
proof (induction tv arbitrary: ms ss ps ks)
  case Nil
  then show ?case by simp
next
  case (Cons e tv)
  obtain page table_idx vals where e: "e = ((page, table_idx), vals)"
    by (cases e) auto
  show ?case
    by (simp add: e append_to_def Cons.IH)
qed

lemma results_loop_from_empty:
  "results_loop L tv [] =
     (if tv = [] then []
      else [(''mean'', map (\<lambda>((page, table_idx), vals). Scalar (calculate_mean L vals)) tv),
            (''std'', map (\<lambda>((page, table_idx), vals). Scalar (calculate_std L vals)) tv),
            (''page number'', map (\<lambda>((page, table_idx), vals). Obj (Py_int page)) tv),
            (''table index'', map (\<lambda>((page, table_idx), vals). Obj (Py_int table_idx)) tv)])"
proof (cases tv)
  case Nil
  then show ?thesis by simp
next
  case (Cons e tv')
  obtain page table_idx vals where e: "e = ((page, table_idx), vals)"
    by (cases e) auto
  show ?thesis
    by (simp add: Cons e append_to_def results_loop_columns)
qed

lemma from_dict_results:
  "from_dict (results_loop L tv []) = Inr (table_statistics L tv)"
proof (cases "tv = []")
  case True
  then show ?thesis by (simp add: from_dict_def table_statistics_def)
next
  case False
  have "map (\<lambda>i. [map (\<lambda>((page, table_idx), vals). Scalar (calculate_mean L vals)) tv ! i,
                   map (\<lambda>((page, table_idx), vals). Scalar (calculate_std L vals)) tv ! i,
                   map (\<lambda>((page, table_idx), vals). Obj (Py_int page)) tv ! i,
                   map (\<lambda>((page, table_idx), vals). Obj (Py_int table_idx)) tv ! i])
          [0..<length tv]
        = map (\<lambda>((page, table_idx), vals).
             [Scalar (calculate_mean L vals), Scalar (calculate_std L vals),
              Obj (Py_int page), Obj (Py_int table_idx)]) tv"
    by (rule nth_equalityI) (auto split: prod.splits)
  with False show ?thesis
    by (simp add: results_loop_from_empty from_dict_def table_statistics_def)
qed

lemma get_table_results_eq:
  "get_table_results L a =
     (case collect_tables_values L a of
        Inl e \<Rightarrow> Inl e
      | Inr a1 \<Rightarrow>
          (case table_values a1 of
             None \<Rightarrow> Inl AttributeError
           | Some tv \<Rightarrow> Inr (table_statistics L tv, a1)))"
  by (simp add: get_table_results_def from_dict_results split: sum.splits option.splits)

lemma extract_empty_iff:
  "(extractNumericValues parse grid {} = [])
     = (\<forall>row \<in> set grid. \<forall>c \<in> set row. isnan (parse c))"
proof -
  have "\<And>row. map (\<lambda>(i, c). parse c) (enumerate 0 row) = map parse row"
    by (simp add: enumerate_eq_zip map_snd_zip_take split_def
        flip: map_map [of parse snd, unfolded comp_def])
  then show ?thesis
    by (auto simp: extractNumericValues_def filter_empty_conv)
qed

section \<open>What a run adds to the log and to the unmatched fields\<close>

lemma update_entries:
  assumes "\<forall>(name, l) \<in> set al. \<forall>(p, v) \<in> set l. Q name p v"
    and "\<forall>(p, v) \<in> set l'. Q k p v"
  shows "\<forall>(name, l) \<in> set (AList.update k l' al). \<forall>(p, v) \<in> set l. Q name p v"
proof -
  have "\<And>e. e \<in> set (AList.update k l' al) \<Longrightarrow> e = (k, l') \<or> e \<in> set al"
    using set_update_subset [of k l' al] by blast
  with assms show ?thesis by blast
qed

lemma check_field_outside:
  assumes "check_field_value_in_table L py fld a = Inr a'"
    and "\<forall>(name, l) \<in> set (fields_outside_of_tables a). \<forall>(p, v) \<in> set l. Q name p v"
    and "\<forall>t. first_tag fld = Inr t \<longrightarrow> Q py (page_number t) (field_value fld)"
  shows "\<forall>(name, l) \<in> set (fields_outside_of_tables a'). \<forall>(p, v) \<in> set l. Q name p v"
proof (cases "\<exists>ts. tables a = Some ts \<and> scan_tables L (threshold a) fld ts = Inr None")
  case False
  with assms(1) have "fields_outside_of_tables a' = fields_outside_of_tables a"
    by (auto simp: check_field_value_in_table_def
             split: option.splits sum.splits if_splits prod.splits)
  with assms(2) show ?thesis by simp
next
  case True
  then obtain ts where ts: "tables a = Some ts" "scan_tables L (threshold a) fld ts = Inr None"
    by blast
  with assms(1) obtain t where t: "first_tag fld = Inr t"
    by (auto simp: check_field_value_in_table_def split: sum.splits)
  with assms(3) have new: "Q py (page_number t) (field_value fld)" by simp
  show ?thesis
  proof (cases "map_of (fields_outside_of_tables a) py")
    case None
    with assms(1) ts t
    have eq: "fields_outside_of_tables a'
            = AList.update py [(page_number t, field_value fld)] (fields_outside_of_tables a)"
      by (auto simp: check_field_value_in_table_def)
    have added: "\<forall>(p, v) \<in> set [(page_number t, field_value fld)]. Q py p v"
      using new by simp
    show ?thesis
      unfolding eq by (rule update_entries [OF assms(2) added])
  next
    case (Some l0)
    then have old: "(py, l0) \<in> set (fields_outside_of_tables a)"
      by (rule map_of_SomeD)
    from assms(1) ts t Some
    have eq: "fields_outside_of_tables a'
            = AList.update py (l0 @ [(page_number t, field_value fld)])
                (fields_outside_of_tables a)"
      by (auto simp: check_field_value_in_table_def)
    have added: "\<forall>(p, v) \<in> set (l0 @ [(page_number t, field_value fld)]). Q py p v"
      using new old assms(2) by auto
    show ?thesis
      unfolding eq by (rule update_entries [OF assms(2) added])
  qed
qed

lemma check_category_outside:
  "check_category L py flds a = Inr a' \<Longrightarrow>
   \<forall>(name, l) \<in> set (fields_outside_of_tables a). \<forall>(p, v) \<in> set l. Q name p v \<Longrightarrow>
   \<forall>f \<in> set flds. \<forall>t. first_tag f = Inr t \<longrightarrow> Q py (page_number t) (field_value f) \<Longrightarrow>
   \<forall>(name, l) \<in> set (fields_outside_of_tables a'). \<forall>(p, v) \<in> set l. Q name p v"
proof (induction flds arbitrary: a)
  case Nil
  then show ?case by simp
next
  case (Cons fld flds)
  have rest: "\<forall>f \<in> set flds. \<forall>t. first_tag f = Inr t \<longrightarrow> Q py (page_number t) (field_value f)"
    and this_one: "\<forall>t. first_tag fld = Inr t \<longrightarrow> Q py (page_number t) (field_value fld)"
    using Cons.prems(3) by simp_all
  show ?case
  proof (cases "tags fld = []")
    case True
    with Cons.prems(1) have "check_category L py flds a = Inr a'" by simp
    from Cons.IH [OF this Cons.prems(2) rest] show ?thesis .
  next
    case False
    with Cons.prems(1) obtain a1 where 1: "check_field_value_in_table L py fld a = Inr a1"
      and 2: "check_category L py flds a1 = Inr a'"
      by (auto split: sum.splits)
    from Cons.IH [OF 2 check_field_outside [OF 1 Cons.prems(2) this_one] rest] show ?thesis .
  qed
qed

lemma check_categories_outside:
  "check_categories L x names a = Inr a' \<Longrightarrow>
   \<forall>(name, l) \<in> set (fields_outside_of_tables a). \<forall>(p, v) \<in> set l. Q name p v \<Longrightarrow>
   \<forall>py flds f t. map_of x py = Some flds \<and> f \<in> set flds \<and> first_tag f = Inr t
      \<longrightarrow> Q py (page_number t) (field_value f) \<Longrightarrow>
   \<forall>(name, l) \<in> set (fields_outside_of_tables a'). \<forall>(p, v) \<in> set l. Q name p v"
proof (induction names arbitrary: a)
  case Nil
  then show ?case by simp
next
  case (Cons py names)
  from Cons.prems(1) obtain flds a1 where 0: "map_of x py = Some flds"
    and 1: "check_category L py flds a = Inr a1"
    and 2: "check_categories L x names a1 = Inr a'"
    by (auto split: option.splits sum.splits)
  have "\<forall>f \<in> set flds. \<forall>t. first_tag f = Inr t \<longrightarrow> Q py (page_number t) (field_value f)"
    using Cons.prems(3) 0 by blast
  from Cons.IH [OF 2 check_category_outside [OF 1 Cons.prems(2) this] Cons.prems(3)]
  show ?case .
qed

section \<open>Tables without tags\<close>

lemma assign_loop_subset:
  "snd ` set (assign_loop ts acc) \<subseteq> snd ` set acc \<union> set ts"
proof (induction ts arbitrary: acc)
  case Nil
  then show ?case by simp
next
  case (Cons t ts)
  show ?case
  proof (cases "tags t")
    case Nil
    with Cons.IH [of acc] show ?thesis by auto
  next
    case (Cons g gs)
    let ?acc = "acc @ [((page_number g,
                  int (length (filter (\<lambda>((p, _), _). p = page_number g) acc))), t)]"
    have "snd ` set (assign_loop ts ?acc) \<subseteq> snd ` set ?acc \<union> set ts"
      by (rule Cons.IH)
    with Cons show ?thesis by auto
  qed
qed

lemma assign_by_page_subset: "snd ` set (assign_by_page ts) \<subseteq> set ts"
  using assign_loop_subset [of ts "[]"] by (simp add: assign_by_page_def)

lemmas example_docs =
  doc_tables_def doc_revenue_def doc_two_names_def doc_one_unmatched_def doc_no_fields_def
  doc_no_table_key_def analyzer_fresh_def analyzer_checked_def analyzer_aggregated_def
  no_unmatched_fields_def

lemma check_fields_doc_tables:
  "check_fields example_library doc_tables analyzer_fresh = Inr (no_unmatched_fields, analyzer_checked)"
  by (simp add: check_fields_def get_table_dict_def check_field_value_in_table_def
        assign_by_page_def frame_of_missing_def Let_def example_docs example_defs)

lemma get_table_results_doc_tables:
  "get_table_results example_library analyzer_checked
     = Inr (table_statistics example_library
              [((1, 0), [Finite 7]), ((1, 1), [Finite 1, Finite 2, Finite 3, Finite 4])],
            analyzer_aggregated)"
  by (simp add: get_table_results_eq collect_tables_values_def get_table_values_def
        example_parse_def isnan_def example_docs example_defs)


lemma scan_tables_total:
  assumes "tags fld \<noteq> []" and "\<forall>(i, T) \<in> set ts. tags T \<noteq> []"
  shows "\<exists>r. scan_tables L thr fld ts = Inr r"
  using assms
  by (induction ts) (auto simp: first_tag_def split: list.splits)

lemma check_field_total:
  assumes "tables a = Some ts" and "\<forall>(i, T) \<in> set ts. tags T \<noteq> []" and "tags fld \<noteq> []"
  shows "\<exists>a'. check_field_value_in_table L py fld a = Inr a'"
proof -
  from scan_tables_total [OF assms(3) assms(2)]
  obtain r where r: "scan_tables L (threshold a) fld ts = Inr r" by blast
  from assms(3) obtain t where t: "first_tag fld = Inr t"
    using first_tag_tagged by blast
  show ?thesis
    using assms(1) r t
    by (cases r) (auto simp: check_field_value_in_table_def split: prod.splits)
qed

lemma check_category_total:
  "tables a = Some ts \<Longrightarrow> \<forall>(i, T) \<in> set ts. tags T \<noteq> [] \<Longrightarrow>
   \<exists>a'. check_category L py flds a = Inr a'"
proof (induction flds arbitrary: a)
  case Nil
  then show ?case by simp
next
  case (Cons fld flds)
  show ?case
  proof (cases "tags fld = []")
    case True
    with Cons show ?thesis by simp
  next
    case False
    from check_field_total [OF Cons.prems(1) Cons.prems(2) False]
    obtain a1 where 1: "check_field_value_in_table L py fld a = Inr a1" by blast
    with check_field_frame [OF 1] Cons.prems(1) have "tables a1 = Some ts" by simp
    from Cons.IH [OF this Cons.prems(2)] False 1 show ?thesis by simp
  qed
qed

lemma check_categories_total:
  "set names \<subseteq> fst ` set x \<Longrightarrow> tables a = Some ts \<Longrightarrow> \<forall>(i, T) \<in> set ts. tags T \<noteq> [] \<Longrightarrow>
   \<exists>a'. check_categories L x names a = Inr a'"
proof (induction names arbitrary: a)
  case Nil
  then show ?case by simp
next
  case (Cons py names)
  from Cons.prems(1) have "map_of x py \<noteq> None"
    by (simp add: map_of_eq_None_iff)
  then obtain flds where flds: "map_of x py = Some flds" by blast
  from check_category_total [OF Cons.prems(2) Cons.prems(3)]
  obtain a1 where 1: "check_category L py flds a = Inr a1" by blast
  with check_category_frame [OF 1] Cons.prems(2) have "tables a1 = Some ts" by simp
  from Cons.IH [OF _ this Cons.prems(3)] Cons.prems(1) flds 1 show ?case by simp
qed

lemma check_field_log:
  assumes "check_field_value_in_table L py fld a = Inr a'"
  shows "\<exists>extra. logged a' = logged a @ extra
           \<and> (\<forall>w \<in> set extra. \<exists>n v p. w = Field_not_in_any_table n v p)"
  using assms
  by (auto simp: check_field_value_in_table_def
           split: option.splits sum.splits if_splits prod.splits)

lemma check_category_log:
  "check_category L py flds a = Inr a' \<Longrightarrow>
   \<exists>extra. logged a' = logged a @ extra
     \<and> (\<forall>w \<in> set extra. \<exists>n v p. w = Field_not_in_any_table n v p)"
proof (induction flds arbitrary: a)
  case Nil
  then show ?case by simp
next
  case (Cons fld flds)
  show ?case
  proof (cases "tags fld = []")
    case True
    with Cons show ?thesis by simp
  next
    case False
    with Cons.prems obtain a1 where 1: "check_field_value_in_table L py fld a = Inr a1"
      and 2: "check_category L py flds a1 = Inr a'"
      by (auto split: sum.splits)
    from check_field_log [OF 1] obtain e1 where e1: "logged a1 = logged a @ e1"
      "\<forall>w \<in> set e1. \<exists>n v p. w = Field_not_in_any_table n v p" by blast
    from Cons.IH [OF 2] obtain e2 where e2: "logged a' = logged a1 @ e2"
      "\<forall>w \<in> set e2. \<exists>n v p. w = Field_not_in_any_table n v p" by blast
    have "logged a' = logged a @ (e1 @ e2)"
      and "\<forall>w \<in> set (e1 @ e2). \<exists>n v p. w = Field_not_in_any_table n v p"
      using e1 e2 by auto
    then show ?thesis by blast
  qed
qed

lemma check_categories_log:
  "check_categories L x names a = Inr a' \<Longrightarrow>
   \<exists>extra. logged a' = logged a @ extra
     \<and> (\<forall>w \<in> set extra. \<exists>n v p. w = Field_not_in_any_table n v p)"
proof (induction names arbitrary: a)
  case Nil
  then show ?case by simp
next
  case (Cons py names)
  then obtain flds a1 where 1: "check_category L py flds a = Inr a1"
    and 2: "check_categories L x names a1 = Inr a'"
    by (auto split: option.splits sum.splits)
  from check_category_log [OF 1] obtain e1 where e1: "logged a1 = logged a @ e1"
    "\<forall>w \<in> set e1. \<exists>n v p. w = Field_not_in_any_table n v p" by blast
  from Cons.IH [OF 2] obtain e2 where e2: "logged a' = logged a1 @ e2"
    "\<forall>w \<in> set e2. \<exists>n v p. w = Field_not_in_any_table n v p" by blast
  have "logged a' = logged a @ (e1 @ e2)"
    and "\<forall>w \<in> set (e1 @ e2). \<exists>n v p. w = Field_not_in_any_table n v p"
    using e1 e2 by auto
  then show ?case by blast
qed

lemma collect_loop_total:
  "\<forall>(i, T) \<in> set tg. tags T \<noteq> [] \<Longrightarrow> \<exists>r. collect_loop L tg (tv, lg) = Inr r"
proof (induction tg arbitrary: tv lg)
  case Nil
  then show ?case by simp
next
  case (Cons e tg)
  obtain idx T where e: "e = (idx, T)" by (cases e)
  from Cons.prems e obtain t where t: "first_tag T = Inr t"
    using first_tag_tagged [of T] by auto
  from Cons.prems have rest: "\<forall>(i, T) \<in> set tg. tags T \<noteq> []" by simp
  show ?case
    using Cons.IH [OF rest] by (simp add: e t)
qed

lemma get_table_results_total:
  assumes "\<forall>(i, T) \<in> set (tagged_tables a). tags T \<noteq> []"
  shows "\<exists>tv a2. get_table_results L a = Inr (table_statistics L tv, a2)
           \<and> table_values a2 = Some tv
           \<and> tagged_tables a2 = tagged_tables a
           \<and> fst ` set tv \<subseteq> fst ` set (tagged_tables a)"
proof -
  from collect_loop_total [OF assms]
  obtain tv lg where "collect_loop L (tagged_tables a) ([], logged a) = Inr (tv, lg)"
    by (metis surj_pair)
  then have coll: "collect_tables_values L a = Inr (a\<lparr>table_values := Some tv, logged := lg\<rparr>)"
    by (simp add: collect_tables_values_def)
  from collect_tables_values_frame [OF coll] coll show ?thesis
    by (simp add: get_table_results_eq)
qed


text \<open>
  C7. Whenever the document has the table category, a table of it without a tag is left
  out before the indices are assigned, with one warning for the document per such table:
  \<open>get_table_dict\<close> hands the indexer the tagged tables alone, so, the indexer
  returning only tables it was given, every indexed table has a tag. The walk over the
  fields then always completes; it leaves the index mapping as it is, adds to the log
  only warnings about unmatched fields, and keeps every referenced table tagged. Every
  entry of the unmatched fields that the run adds comes from an object of the document
  that has a tag, and the report of \<open>check_fields\<close>, when the frame can be built, is
  built from those entries. The statistics report has its rows from the indices of
  referenced tables only.
\<close>

theorem untagged_tables_excluded:
  assumes "\<forall>ts. snd ` set (assign_indices_to_tables L ts) \<subseteq> set ts"
    and "\<forall>(i, T) \<in> set (tagged_tables a). tags T \<noteq> []"
    and "map_of (doc_x doc) (table_name a) = Some ts"
  shows "\<exists>indexed a0 a1 extra tv a2.
           indexed = assign_indices_to_tables L (filter (\<lambda>T. tags T \<noteq> []) ts)
         \<and> a0 = a\<lparr>document := Some doc, tables := Some indexed,
                   logged := logged a @
                     map (\<lambda>_. Table_has_no_tags (doc_id doc)) (filter (\<lambda>T. tags T = []) ts)\<rparr>
         \<and> get_table_dict L (a\<lparr>document := Some doc\<rparr>) = Inr a0
         \<and> (\<forall>(i, T) \<in> set indexed. tags T \<noteq> [])
         \<and> check_categories L (doc_x doc) (map fst (doc_x doc)) a0 = Inr a1
         \<and> check_fields L doc a =
             (case pd_DataFrame (map snd (fields_outside_of_tables a1))
                     (map fst (fields_outside_of_tables a1)) [''page'', ''field_value''] of
                Inl e \<Rightarrow> Inl e
              | Inr frame \<Rightarrow> Inr (frame\<lparr>index_name := Some ''python_name''\<rparr>, a1))
         \<and> tables a1 = Some indexed
         \<and> logged a1 = logged a0 @ extra
         \<and> (\<forall>w \<in> set extra. \<exists>n v p. w = Field_not_in_any_table n v p)
         \<and> (\<forall>(i, T) \<in> set (tagged_tables a1). tags T \<noteq> [])
         \<and> (\<forall>(name, l) \<in> set (fields_outside_of_tables a1). \<forall>(p, v) \<in> set l.
               (\<exists>l0. (name, l0) \<in> set (fields_outside_of_tables a) \<and> (p, v) \<in> set l0)
             \<or> (\<exists>flds f t. map_of (doc_x doc) name = Some flds \<and> f \<in> set flds
                    \<and> first_tag f = Inr t \<and> p = page_number t \<and> v = field_value f))
         \<and> get_table_results L a1 = Inr (table_statistics L tv, a2)
         \<and> table_values a2 = Some tv
         \<and> tagged_tables a2 = tagged_tables a1
         \<and> fst ` set tv \<subseteq> fst ` set (tagged_tables a1)"
proof -
  let ?indexed = "assign_indices_to_tables L (filter (\<lambda>T. tags T \<noteq> []) ts)"
  define a0 where "a0 = a\<lparr>document := Some doc, tables := Some ?indexed,
                   logged := logged a @
                     map (\<lambda>_. Table_has_no_tags (doc_id doc)) (filter (\<lambda>T. tags T = []) ts)\<rparr>"
  have gd: "get_table_dict L (a\<lparr>document := Some doc\<rparr>) = Inr a0"
    using assms(3) by (simp add: a0_def get_table_dict_eq [where d = doc and ts = ts])
  have "snd ` set ?indexed \<subseteq> set (filter (\<lambda>T. tags T \<noteq> []) ts)"
    using assms(1) by blast
  then have indexed: "\<forall>(i, T) \<in> set ?indexed. tags T \<noteq> []"
    by force
  have tbl0: "tables a0 = Some ?indexed"
    by (simp add: a0_def)
  have "set (map fst (doc_x doc)) \<subseteq> fst ` set (doc_x doc)"
    by simp
  from check_categories_total [OF this tbl0 indexed]
  obtain a1 where walk: "check_categories L (doc_x doc) (map fst (doc_x doc)) a0 = Inr a1"
    by blast
  have cf: "check_fields L doc a =
             (case pd_DataFrame (map snd (fields_outside_of_tables a1))
                     (map fst (fields_outside_of_tables a1)) [''page'', ''field_value''] of
                Inl e \<Rightarrow> Inl e
              | Inr frame \<Rightarrow> Inr (frame\<lparr>index_name := Some ''python_name''\<rparr>, a1))"
    by (simp add: check_fields_def gd walk)
  have tbl: "tables a1 = Some ?indexed"
    using check_categories_frame [OF walk] tbl0 by simp
  from check_categories_log [OF walk]
  obtain extra where lg: "logged a1 = logged a0 @ extra"
    and only: "\<forall>w \<in> set extra. \<exists>n v p. w = Field_not_in_any_table n v p"
    by blast
  have "\<forall>(i, T) \<in> set (tagged_tables a0). tags T \<noteq> []"
    using assms(2) by (simp add: a0_def)
  from check_categories_tagged [OF walk this]
  have referenced: "\<forall>(i, T) \<in> set (tagged_tables a1). tags T \<noteq> []" .
  let ?Q = "\<lambda>name p v.
      (\<exists>l0. (name, l0) \<in> set (fields_outside_of_tables a) \<and> (p, v) \<in> set l0)
    \<or> (\<exists>flds f t. map_of (doc_x doc) name = Some flds \<and> f \<in> set flds
           \<and> first_tag f = Inr t \<and> p = page_number t \<and> v = field_value f)"
  have old: "\<forall>(name, l) \<in> set (fields_outside_of_tables a0). \<forall>(p, v) \<in> set l. ?Q name p v"
    by (auto simp: a0_def)
  have new: "\<forall>py flds f t. map_of (doc_x doc) py = Some flds \<and> f \<in> set flds \<and> first_tag f = Inr t
               \<longrightarrow> ?Q py (page_number t) (field_value f)"
    by blast
  have outside: "\<forall>(name, l) \<in> set (fields_outside_of_tables a1). \<forall>(p, v) \<in> set l. ?Q name p v"
    by (rule check_categories_outside [OF walk old new])
  from get_table_results_total [OF referenced, of L]
  obtain tv a2 where res: "get_table_results L a1 = Inr (table_statistics L tv, a2)"
    and tv: "table_values a2 = Some tv" and same: "tagged_tables a2 = tagged_tables a1"
    and keys: "fst ` set tv \<subseteq> fst ` set (tagged_tables a1)"
    by blast
  show ?thesis
    apply (rule exI [where x = "?indexed"])
    apply (rule exI [where x = a0])
    apply (rule exI [where x = a1])
    apply (rule exI [where x = extra])
    apply (rule exI [where x = tv])
    apply (rule exI [where x = a2])
    apply (intro conjI)
    subgoal by (rule refl)
    subgoal by (rule a0_def)
    subgoal by (rule gd)
    subgoal by (rule indexed)
    subgoal by (rule walk)
    subgoal by (rule cf)
    subgoal by (rule tbl)
    subgoal by (rule lg)
    subgoal by (rule only)
    subgoal by (rule referenced)
    subgoal by (rule outside)
    subgoal by (rule res)
    subgoal by (rule tv)
    subgoal by (rule same)
    subgoal by (rule keys)
    done
qed

lemma walk_doc_untagged:
  "get_table_dict example_library (analyzer_fresh\<lparr>document := Some doc_untagged\<rparr>)
     = Inr analyzer_indexed"
  "check_categories example_library (doc_x doc_untagged) (map fst (doc_x doc_untagged))
     analyzer_indexed = Inr analyzer_walked"
  "check_fields example_library doc_untagged analyzer_fresh = Inl ValueError"
  by (simp_all add: check_fields_def get_table_dict_def check_field_value_in_table_def
        assign_by_page_def Let_def doc_untagged_def analyzer_indexed_def analyzer_walked_def
        example_docs example_defs)

theorem untagged_tables_excluded_witness:
  "(\<forall>ts. snd ` set (assign_indices_to_tables example_library ts) \<subseteq> set ts)
   \<and> tagged_tables analyzer_fresh = []
   \<and> map_of (doc_x doc_untagged) (table_name analyzer_fresh) = Some [table_U, table_A]
   \<and> tags table_U = []
   \<and> get_table_dict example_library (analyzer_fresh\<lparr>document := Some doc_untagged\<rparr>)
       = Inr analyzer_indexed
   \<and> tables analyzer_indexed = Some (assign_by_page [table_A])
   \<and> logged analyzer_indexed = [Table_has_no_tags ''d6'']
   \<and> check_categories example_library (doc_x doc_untagged) (map fst (doc_x doc_untagged))
        analyzer_indexed = Inr analyzer_walked
   \<and> check_fields example_library doc_untagged analyzer_fresh = Inl ValueError
   \<and> table_U \<notin> snd ` set (tagged_tables analyzer_walked)
   \<and> (\<exists>tv a2. get_table_results example_library analyzer_walked
                 = Inr (table_statistics example_library tv, a2)
         \<and> fst ` set tv \<subseteq> fst ` set (tagged_tables analyzer_walked))"
proof -
  have 1: "\<forall>ts. snd ` set (assign_indices_to_tables example_library ts) \<subseteq> set ts"
    by (simp add: example_library_def assign_by_page_subset)
  have 2: "\<forall>(i, T) \<in> set (tagged_tables analyzer_fresh). tags T \<noteq> []"
    and none: "tagged_tables analyzer_fresh = []"
    by (simp_all add: analyzer_fresh_def TableAnalyzer_init_def)
  have 3: "map_of (doc_x doc_untagged) (table_name analyzer_fresh) = Some [table_U, table_A]"
    by (simp add: doc_untagged_def analyzer_fresh_def TableAnalyzer_init_def)
  have 4: "tags table_U = []" "tags table_A \<noteq> []"
    by (simp_all add: example_defs)
  have 5: "tables analyzer_indexed = Some (assign_by_page [table_A])"
    "logged analyzer_indexed = [Table_has_no_tags ''d6'']"
    by (simp_all add: analyzer_indexed_def assign_by_page_def example_defs)
  from untagged_tables_excluded [OF 1 2 3]
  obtain a0 a1 tv a2 where "get_table_dict example_library
           (analyzer_fresh\<lparr>document := Some doc_untagged\<rparr>) = Inr a0"
    and "check_categories example_library (doc_x doc_untagged) (map fst (doc_x doc_untagged)) a0
           = Inr a1"
    and tagged: "\<forall>(i, T) \<in> set (tagged_tables a1). tags T \<noteq> []"
    and res: "get_table_results example_library a1 = Inr (table_statistics example_library tv, a2)"
    and keys: "fst ` set tv \<subseteq> fst ` set (tagged_tables a1)"
    by (elim exE conjE) blast
  with walk_doc_untagged(1,2) have a1: "a1 = analyzer_walked"
    by simp
  from tagged 4(1) have "table_U \<notin> snd ` set (tagged_tables analyzer_walked)"
    unfolding a1 by force
  moreover from res keys
  have "\<exists>tv a2. get_table_results example_library analyzer_walked
                 = Inr (table_statistics example_library tv, a2)
         \<and> fst ` set tv \<subseteq> fst ` set (tagged_tables analyzer_walked)"
    unfolding a1 by blast
  ultimately show ?thesis
    using 1 none 3 4(1) 5 walk_doc_untagged by simp
qed

section \<open>Skipped tables, the empty report and the missing category\<close>

lemma aggregated_member:
  "(idx, vs) \<in> set (aggregated L tg) =
     (vs \<noteq> [] \<and> (\<exists>T. (idx, T) \<in> set tg
        \<and> vs = extractNumericValues (parse_numeric L) (first_grid T) {}))"
  by (auto simp: aggregated_def)

text \<open>
  C9. With every referenced table tagged, \<open>get_table_results\<close> returns the statistics
  of the aggregation the specification describes and stores that aggregation as the
  table values. A referenced table whose every cell parses to not-a-number is skipped
  with a warning that carries its index: it has no entry in the table values, hence no
  row in the report. Every other referenced table has its entry, with the values
  extracted from its own grid.
\<close>

theorem unparsed_tables_skipped:
  assumes "\<forall>(i, T) \<in> set (tagged_tables a). tags T \<noteq> []"
    and "distinct (map fst (tagged_tables a))"
  shows "get_table_results L a =
           Inr (table_statistics L (aggregated L (tagged_tables a)),
                a\<lparr>table_values := Some (aggregated L (tagged_tables a)),
                  logged := logged a @ skipped_warnings L (tagged_tables a)\<rparr>)
       \<and> (\<forall>(idx, T) \<in> set (tagged_tables a).
             (\<forall>row \<in> set (first_grid T). \<forall>c \<in> set row. isnan (parse_numeric L c))
             \<longrightarrow> idx \<notin> fst ` set (aggregated L (tagged_tables a))
                 \<and> Could_not_parse_any_value idx \<in> set (skipped_warnings L (tagged_tables a)))
       \<and> (\<forall>(idx, T) \<in> set (tagged_tables a).
             \<not> (\<forall>row \<in> set (first_grid T). \<forall>c \<in> set row. isnan (parse_numeric L c))
             \<longrightarrow> (idx, extractNumericValues (parse_numeric L) (first_grid T) {})
                   \<in> set (aggregated L (tagged_tables a)))"
proof (intro conjI)
  show "get_table_results L a =
           Inr (table_statistics L (aggregated L (tagged_tables a)),
                a\<lparr>table_values := Some (aggregated L (tagged_tables a)),
                  logged := logged a @ skipped_warnings L (tagged_tables a)\<rparr>)"
    by (simp add: get_table_results_eq collect_tables_values_eq [OF assms])
next
  show "\<forall>(idx, T) \<in> set (tagged_tables a).
             (\<forall>row \<in> set (first_grid T). \<forall>c \<in> set row. isnan (parse_numeric L c))
             \<longrightarrow> idx \<notin> fst ` set (aggregated L (tagged_tables a))
                 \<and> Could_not_parse_any_value idx \<in> set (skipped_warnings L (tagged_tables a))"
  proof (clarify, intro conjI)
    fix idx T
    assume mem: "(idx, T) \<in> set (tagged_tables a)"
      and nan: "\<forall>row \<in> set (first_grid T). \<forall>c \<in> set row. isnan (parse_numeric L c)"
    then have none: "extractNumericValues (parse_numeric L) (first_grid T) {} = []"
      by (simp add: extract_empty_iff)
    show "idx \<notin> fst ` set (aggregated L (tagged_tables a))"
    proof
      assume "idx \<in> fst ` set (aggregated L (tagged_tables a))"
      then obtain vs T' where "vs \<noteq> []" and T': "(idx, T') \<in> set (tagged_tables a)"
        and vs: "vs = extractNumericValues (parse_numeric L) (first_grid T') {}"
        by (auto simp: aggregated_member)
      from assms(2) mem T' have "T' = T"
        by (meson eq_key_imp_eq_value)
      with vs none \<open>vs \<noteq> []\<close> show False by simp
    qed
    from mem none
    show "Could_not_parse_any_value idx \<in> set (skipped_warnings L (tagged_tables a))"
      by (force simp: skipped_warnings_def)
  qed
next
  show "\<forall>(idx, T) \<in> set (tagged_tables a).
             \<not> (\<forall>row \<in> set (first_grid T). \<forall>c \<in> set row. isnan (parse_numeric L c))
             \<longrightarrow> (idx, extractNumericValues (parse_numeric L) (first_grid T) {})
                   \<in> set (aggregated L (tagged_tables a))"
    by (auto simp: aggregated_member extract_empty_iff)
qed

theorem unparsed_tables_skipped_witness:
  "tagged_tables analyzer_checked = [((1, 0), table_Z), ((1, 1), table_A), ((2, 0), table_B)]
   \<and> tags table_Z \<noteq> [] \<and> tags table_A \<noteq> [] \<and> tags table_B \<noteq> []
   \<and> distinct (map fst (tagged_tables analyzer_checked))
   \<and> first_grid table_B = [[Py_str ''x'', Py_str ''NaN'']]
   \<and> isnan (parse_numeric example_library (Py_str ''x''))
   \<and> isnan (parse_numeric example_library (Py_str ''NaN''))
   \<and> aggregated example_library (tagged_tables analyzer_checked)
       = [((1, 0), [Finite 7]), ((1, 1), [Finite 1, Finite 2, Finite 3, Finite 4])]
   \<and> get_table_results example_library analyzer_checked
       = Inr (table_statistics example_library
                [((1, 0), [Finite 7]), ((1, 1), [Finite 1, Finite 2, Finite 3, Finite 4])],
              analyzer_aggregated)
   \<and> (2, 0) \<notin> fst ` set (aggregated example_library (tagged_tables analyzer_checked))
   \<and> Could_not_parse_any_value (2, 0) \<in> set (logged analyzer_aggregated)"
proof -
  have 1: "\<forall>(i, T) \<in> set (tagged_tables analyzer_checked). tags T \<noteq> []"
    by (simp add: example_docs example_defs)
  have 2: "distinct (map fst (tagged_tables analyzer_checked))"
    by (simp add: example_docs example_defs)
  have 3: "\<forall>row \<in> set (first_grid table_B). \<forall>c \<in> set row. isnan (parse_numeric example_library c)"
    by (simp add: first_grid_def example_parse_def isnan_def example_defs)
  have 4: "((2, 0), table_B) \<in> set (tagged_tables analyzer_checked)"
    by (simp add: example_docs)
  have 5: "aggregated example_library (tagged_tables analyzer_checked)
             = [((1, 0), [Finite 7]), ((1, 1), [Finite 1, Finite 2, Finite 3, Finite 4])]"
    by (auto simp: aggregated_def extractNumericValues_def first_grid_def example_parse_def
          isnan_def example_docs example_defs)
  have 6: "skipped_warnings example_library (tagged_tables analyzer_checked)
             = [Could_not_parse_any_value (2, 0)]"
    by (auto simp: skipped_warnings_def extractNumericValues_def first_grid_def example_parse_def
          isnan_def example_docs example_defs)
  have 7: "analyzer_checked\<lparr>table_values :=
               Some [((1, 0), [Finite 7]), ((1, 1), [Finite 1, Finite 2, Finite 3, Finite 4])],
             logged := logged analyzer_checked @ [Could_not_parse_any_value (2, 0)]\<rparr>
           = analyzer_aggregated"
    by (simp add: example_docs)
  from unparsed_tables_skipped [OF 1 2, of example_library] 3 4
  have "get_table_results example_library analyzer_checked =
           Inr (table_statistics example_library
                  (aggregated example_library (tagged_tables analyzer_checked)),
                analyzer_checked\<lparr>table_values :=
                    Some (aggregated example_library (tagged_tables analyzer_checked)),
                  logged := logged analyzer_checked
                    @ skipped_warnings example_library (tagged_tables analyzer_checked)\<rparr>)"
    and "(2, 0) \<notin> fst ` set (aggregated example_library (tagged_tables analyzer_checked))"
    by blast+
  moreover have "tagged_tables analyzer_checked
                   = [((1, 0), table_Z), ((1, 1), table_A), ((2, 0), table_B)]"
    and "tags table_Z \<noteq> []" and "tags table_A \<noteq> []" and "tags table_B \<noteq> []"
    and "first_grid table_B = [[Py_str ''x'', Py_str ''NaN'']]"
    and "isnan (parse_numeric example_library (Py_str ''x''))"
    and "isnan (parse_numeric example_library (Py_str ''NaN''))"
    by (simp_all add: first_grid_def example_parse_def isnan_def example_docs example_defs)
  ultimately show ?thesis
    using 2 5 6 7 by (simp add: analyzer_aggregated_def)
qed

text \<open>
  C10. When the table values are empty after the aggregation, the frame that
  \<open>get_table_results\<close> returns has no column, no row and an empty index: the columns
  mean, std, page number and table index are absent, and the frame is \<open>empty\<close>. With
  at least one aggregated table the four columns are there, one row per table.
\<close>

theorem no_values_no_columns:
  assumes "get_table_results L a = Inr (frame, a')"
  shows "(table_values a' = Some [] \<longrightarrow>
            frame = \<lparr>frame_index = [], index_name = None, frame_columns = [], frame_rows = []\<rparr>
            \<and> empty_frame frame)
       \<and> (\<forall>tv. table_values a' = Some tv \<and> tv \<noteq> [] \<longrightarrow>
            frame_columns frame = [''mean'', ''std'', ''page number'', ''table index'']
            \<and> length (frame_rows frame) = length tv)"
proof -
  from assms obtain tv where "table_values a' = Some tv" and "frame = table_statistics L tv"
    by (auto simp: get_table_results_eq split: sum.splits option.splits)
  then show ?thesis
    by (auto simp: table_statistics_def empty_frame_def)
qed

theorem no_values_no_columns_witness:
  "get_table_results example_library analyzer_only_B
     = Inr (\<lparr>frame_index = [], index_name = None, frame_columns = [], frame_rows = []\<rparr>,
            analyzer_only_B\<lparr>table_values := Some [],
              logged := [Could_not_parse_any_value (2, 0)]\<rparr>)
   \<and> empty_frame (\<lparr>frame_index = [], index_name = None, frame_columns = [], frame_rows = []\<rparr>
        :: (nat, np_term) DataFrame)
   \<and> frame_columns (table_statistics example_library
        [((1, 0), [Finite 7]), ((1, 1), [Finite 1, Finite 2, Finite 3, Finite 4])])
       = [''mean'', ''std'', ''page number'', ''table index'']"
proof -
  have 1: "get_table_results example_library analyzer_only_B
     = Inr (\<lparr>frame_index = [], index_name = None, frame_columns = [], frame_rows = []\<rparr>,
            analyzer_only_B\<lparr>table_values := Some [],
              logged := [Could_not_parse_any_value (2, 0)]\<rparr>)"
    by (simp add: get_table_results_eq collect_tables_values_def get_table_values_def
          table_statistics_def example_parse_def isnan_def analyzer_only_B_def
          example_docs example_defs)
  have 2: "table_values (analyzer_only_B\<lparr>table_values := Some [],
              logged := [Could_not_parse_any_value (2, 0)]\<rparr>) = Some []"
    by simp
  have 3: "table_values analyzer_aggregated
             = Some [((1, 0), [Finite 7]), ((1, 1), [Finite 1, Finite 2, Finite 3, Finite 4])]"
    by (simp add: analyzer_aggregated_def)
  from no_values_no_columns [OF 1] 2 no_values_no_columns [OF get_table_results_doc_tables] 3
  show ?thesis
    using 1 by simp
qed

text \<open>
  C5. When the document has no entry under the analyzer's table name, \<open>check_fields\<close>
  raises \<open>KeyError\<close>, a \<open>LookupError\<close>, and returns no report. The script, whose
  analyzer looks under \<open>tables__table\<close>, catches it and shows its message and nothing
  else after the headings: no report, whole or partial, is displayed.
\<close>

theorem missing_table_category:
  assumes "map_of (doc_x doc) (table_name a) = None"
  shows "check_fields L doc a = Inl (KeyError (table_name a))
       \<and> is_LookupError (KeyError (table_name a))
       \<and> (\<not> is_xbrl doc \<and> table_name a = ''tables__table'' \<longrightarrow>
            display_document_object L doc =
              ([St_title ''Document Analysis Results'', St_subheader ''Table Analysis'',
                St_error ''The provided document object has no tables under the key''], None))"
proof -
  have "get_table_dict L (a\<lparr>document := Some doc\<rparr>) = Inl (KeyError (table_name a))"
    using assms by (simp add: get_table_dict_def)
  then have 1: "check_fields L doc a = Inl (KeyError (table_name a))"
    by (simp add: check_fields_def)
  have 2: "is_LookupError (KeyError (table_name a))"
    by (simp add: is_LookupError_def)
  have 3: "display_document_object L doc =
              ([St_title ''Document Analysis Results'', St_subheader ''Table Analysis'',
                St_error ''The provided document object has no tables under the key''], None)"
    if "\<not> is_xbrl doc" and "table_name a = ''tables__table''"
  proof -
    have "get_table_dict L ((TableAnalyzer_init ''tables__table'' (1 / 2))\<lparr>document := Some doc\<rparr>)
            = Inl (KeyError ''tables__table'')"
      using assms that by (simp add: get_table_dict_def TableAnalyzer_init_def)
    then have "check_fields L doc (TableAnalyzer_init ''tables__table'' (1 / 2))
                 = Inl (KeyError ''tables__table'')"
      by (simp add: check_fields_def)
    with that show ?thesis
      by (simp add: display_document_object_def except_KeyError_def)
  qed
  from 1 2 3 show ?thesis by blast
qed

theorem missing_table_category_witness:
  "map_of (doc_x doc_no_table_key) (table_name analyzer_fresh) = None
   \<and> \<not> is_xbrl doc_no_table_key \<and> table_name analyzer_fresh = ''tables__table''
   \<and> check_fields example_library doc_no_table_key analyzer_fresh
       = Inl (KeyError ''tables__table'')
   \<and> display_document_object example_library doc_no_table_key =
        ([St_title ''Document Analysis Results'', St_subheader ''Table Analysis'',
          St_error ''The provided document object has no tables under the key''], None)"
proof -
  have 1: "map_of (doc_x doc_no_table_key) (table_name analyzer_fresh) = None"
    by (simp add: example_docs TableAnalyzer_init_def)
  have 2: "\<not> is_xbrl doc_no_table_key" "table_name analyzer_fresh = ''tables__table''"
    by (simp_all add: example_docs TableAnalyzer_init_def)
  from missing_table_category [OF 1, of example_library] 1 2 show ?thesis
    by simp
qed

section \<open>The unmatched fields report and the reuse of an analyzer\<close>

lemmas run_defs =
  check_fields_def get_table_dict_def check_field_value_in_table_def assign_by_page_def
  frame_of_missing_def Let_def

text \<open>
  C1. The unmatched fields are grouped as the docstring of \<open>check_fields\<close> says: for
  two unmatched fields under \<open>revenue\<close>, on pages 1 and 3 with the values 100 and 200,
  the analyzer holds \<open>revenue\<close> with the list \<open>[(1, 100), (3, 200)]\<close>. The report is
  not built from it as one row per name: the lists are unpacked into the positional
  arguments of the frame constructor. On this document the one list is taken as two rows
  for an index of one label, and \<open>check_fields\<close> raises ValueError, which the script
  does not catch. With unmatched fields under two names the second list lands on the
  \<open>index\<close> parameter and the call is a TypeError. Only a single unmatched field gives a
  frame at all, and its row holds the page and the value, not a list.
\<close>

theorem unmatched_report_not_grouped:
  "(case get_table_dict example_library (analyzer_fresh\<lparr>document := Some doc_revenue\<rparr>) of
      Inl e \<Rightarrow> Inl e
    | Inr a1 \<Rightarrow>
        map_sum id fields_outside_of_tables
          (check_categories example_library (doc_x doc_revenue) (map fst (doc_x doc_revenue)) a1))
     = Inr [(''revenue'', [(1, Py_int 100), (3, Py_int 200)])]
   \<and> check_fields example_library doc_revenue analyzer_fresh = Inl ValueError
   \<and> display_document_object example_library doc_revenue
       = ([St_title ''Document Analysis Results'', St_subheader ''Table Analysis''],
          Some ValueError)
   \<and> check_fields example_library doc_two_names analyzer_fresh = Inl TypeError
   \<and> check_fields example_library doc_one_unmatched analyzer_fresh
       = Inr (one_revenue_row, analyzer_after_first)"
proof (intro conjI)
  show "(case get_table_dict example_library (analyzer_fresh\<lparr>document := Some doc_revenue\<rparr>) of
      Inl e \<Rightarrow> Inl e
    | Inr a1 \<Rightarrow>
        map_sum id fields_outside_of_tables
          (check_categories example_library (doc_x doc_revenue) (map fst (doc_x doc_revenue)) a1))
     = Inr [(''revenue'', [(1, Py_int 100), (3, Py_int 200)])]"
    by (simp add: run_defs example_docs example_defs)
  show 1: "check_fields example_library doc_revenue analyzer_fresh = Inl ValueError"
    by (simp add: run_defs example_docs example_defs)
  show "display_document_object example_library doc_revenue
       = ([St_title ''Document Analysis Results'', St_subheader ''Table Analysis''],
          Some ValueError)"
    using 1 by (simp add: display_document_object_def except_KeyError_def analyzer_fresh_def
          doc_revenue_def)
  show "check_fields example_library doc_two_names analyzer_fresh = Inl TypeError"
    by (simp add: run_defs example_docs example_defs)
  show "check_fields example_library doc_one_unmatched analyzer_fresh
       = Inr (one_revenue_row, analyzer_after_first)"
    by (simp add: run_defs example_docs example_defs one_revenue_row_def analyzer_after_first_def)
qed

text \<open>
  C2. A second \<open>check_fields\<close> on the same analyzer does not start from a clean state:
  \<open>tagged_tables\<close> and \<open>fields_outside_of_tables\<close> are set in \<open>__init__\<close> only. After
  a run on a document with one table and one unmatched field, a run on a document with no
  field at all reports that unmatched field again and gives statistics for the first
  document's table, where a fresh analyzer reports no unmatched field and an empty
  statistics frame.
\<close>

theorem reuse_keeps_previous_run:
  "check_fields example_library doc_one_unmatched analyzer_fresh
     = Inr (one_revenue_row, analyzer_after_first)
   \<and> check_fields example_library doc_no_fields analyzer_after_first
     = Inr (one_revenue_row,
            analyzer_after_first\<lparr>tables := Some [], document := Some doc_no_fields\<rparr>)
   \<and> check_fields example_library doc_no_fields analyzer_fresh
     = Inr (no_unmatched_fields,
            analyzer_fresh\<lparr>tables := Some [], document := Some doc_no_fields\<rparr>)
   \<and> one_revenue_row \<noteq> no_unmatched_fields
   \<and> map_sum id fst (get_table_results example_library
        (analyzer_after_first\<lparr>tables := Some [], document := Some doc_no_fields\<rparr>))
     = Inr (table_statistics example_library
              [((1, 0), [Finite 1, Finite 2, Finite 3, Finite 4])])
   \<and> map_sum id fst (get_table_results example_library
        (analyzer_fresh\<lparr>tables := Some [], document := Some doc_no_fields\<rparr>))
     = Inr \<lparr>frame_index = [], index_name = None, frame_columns = [], frame_rows = []\<rparr>"
proof (intro conjI)
  show "check_fields example_library doc_one_unmatched analyzer_fresh
     = Inr (one_revenue_row, analyzer_after_first)"
    by (simp add: run_defs example_docs example_defs one_revenue_row_def analyzer_after_first_def)
  show "check_fields example_library doc_no_fields analyzer_after_first
     = Inr (one_revenue_row,
            analyzer_after_first\<lparr>tables := Some [], document := Some doc_no_fields\<rparr>)"
    by (simp add: run_defs example_docs example_defs one_revenue_row_def analyzer_after_first_def)
  show "check_fields example_library doc_no_fields analyzer_fresh
     = Inr (no_unmatched_fields,
            analyzer_fresh\<lparr>tables := Some [], document := Some doc_no_fields\<rparr>)"
    by (simp add: run_defs example_docs example_defs)
  show "one_revenue_row \<noteq> no_unmatched_fields"
    by (simp add: one_revenue_row_def no_unmatched_fields_def)
  show "map_sum id fst (get_table_results example_library
        (analyzer_after_first\<lparr>tables := Some [], document := Some doc_no_fields\<rparr>))
     = Inr (table_statistics example_library
              [((1, 0), [Finite 1, Finite 2, Finite 3, Finite 4])])"
    by (simp add: get_table_results_eq collect_tables_values_def get_table_values_def
          example_parse_def isnan_def analyzer_after_first_def example_docs example_defs)
  show "map_sum id fst (get_table_results example_library
        (analyzer_fresh\<lparr>tables := Some [], document := Some doc_no_fields\<rparr>))
     = Inr \<lparr>frame_index = [], index_name = None, frame_columns = [], frame_rows = []\<rparr>"
    by (simp add: get_table_results_eq collect_tables_values_def table_statistics_def
          example_docs example_defs)
qed

end
